theory Spec2Isabelle
  imports Complex_Main
begin

section \<open>WavePy: split-step wave optics through turbulence\<close>

text \<open>
  A shallow embedding of \<^verbatim>\<open>src/WavePy.py\<close> (class \<^verbatim>\<open>WavePy\<close>) and of
  \<^verbatim>\<open>src/wavepy3/atmos/atmos.py\<close> (class \<^verbatim>\<open>Atmos\<close>).

  Conventions of the embedding.
  \<^item> Python floats are real numbers and numpy complex numbers are complex numbers: rounding,
    NaN and infinities of IEEE arithmetic are not part of the model. A numpy array division
    by zero (a warning in numpy, no exception) is therefore HOL's \<open>x / 0 = 0\<close>; a division
    of two Python scalars by zero is the exception \<open>ZeroDivisionError\<close>.
  \<^item> \<^verbatim>\<open>WavePy.py\<close> is Python 2 code (its header still lists the port to Python 3 as to do,
    and \<^verbatim>\<open>range(-a, a)\<close> with \<^verbatim>\<open>a = self.N/2\<close> only runs when \<^verbatim>\<open>/\<close> on two ints is floor
    division). So \<^verbatim>\<open>/\<close> between two ints is \<open>div\<close> there; \<^verbatim>\<open>atmos.py\<close> is Python 3.
  \<^item> A one-dimensional numpy array is a list, a two-dimensional one a list of rows.
  \<^item> Every exception the code can raise on the modelled paths is a value \<open>Inl e\<close>.
\<close>

text \<open>The values that are keys and settings of dicts: names, numbers, and \<^verbatim>\<open>float('inf')\<close>.
  A \<open>KeyError\<close> carries the key that was not found.\<close>

datatype pyval = PyStr string | PyInt int | PyFloat real | PyInf

datatype py_error = ValueError | ZeroDivisionError | IndexError | TypeError | KeyError pyval

type_synonym 'a array2 = "'a list list"

definition err_bind :: "py_error + 'a \<Rightarrow> ('a \<Rightarrow> py_error + 'b) \<Rightarrow> py_error + 'b" where
  "err_bind m f = (case m of Inl e \<Rightarrow> Inl e | Inr v \<Rightarrow> f v)"

subsection \<open>Scalars\<close>

text \<open>Division of two Python scalars, the divisor a float.\<close>

definition py_div :: "real \<Rightarrow> real \<Rightarrow> py_error + real" where
  "py_div a b = (if b = 0 then Inl ZeroDivisionError else Inr (a / b))"

text \<open>\<^verbatim>\<open>x ** y\<close> on two Python floats: zero to a negative power raises
  \<open>ZeroDivisionError\<close>, and Python 2 raises \<open>ValueError\<close> for a negative base with a
  fractional exponent.\<close>

definition py_pow :: "real \<Rightarrow> real \<Rightarrow> py_error + real" where
  "py_pow x y =
     (if x = 0 \<and> y < 0 then Inl ZeroDivisionError
      else if x < 0 \<and> of_int \<lfloor>y\<rfloor> \<noteq> y then Inl ValueError
      else if x < 0 then Inr (x powi \<lfloor>y\<rfloor>)
      else if y = 0 then Inr 1
      else Inr (x powr y))"

subsection \<open>Arrays\<close>

text \<open>\<^verbatim>\<open>xs[i]\<close> with Python's negative indices.\<close>

definition py_index :: "'a list \<Rightarrow> int \<Rightarrow> py_error + 'a" where
  "py_index xs i =
     (if 0 \<le> i \<and> i < int (length xs) then Inr (xs ! nat i)
      else if i < 0 \<and> - int (length xs) \<le> i then Inr (xs ! nat (int (length xs) + i))
      else Inl IndexError)"

text \<open>\<^verbatim>\<open>np.linspace(start, stop, num)\<close> for \<open>num \<ge> 0\<close>.\<close>

definition linspace :: "real \<Rightarrow> real \<Rightarrow> nat \<Rightarrow> real list" where
  "linspace start stop num =
     (if num = 1 then [start]
      else map (\<lambda>i. if i = num - 1 then stop
                     else start + real i * ((stop - start) / real (num - 1))) [0..<num])"

text \<open>\<^verbatim>\<open>X, Y = np.meshgrid(x, y)\<close>: \<open>X[i][j] = x[j]\<close> and \<open>Y[i][j] = y[i]\<close>.\<close>

definition meshgrid_X :: "'a list \<Rightarrow> 'b list \<Rightarrow> 'a array2" where
  "meshgrid_X x y = map (\<lambda>_. x) y"

definition meshgrid_Y :: "'a list \<Rightarrow> 'b list \<Rightarrow> 'b array2" where
  "meshgrid_Y x y = map (\<lambda>yi. map (\<lambda>_. yi) x) y"

definition amap :: "('a \<Rightarrow> 'b) \<Rightarrow> 'a array2 \<Rightarrow> 'b array2" where
  "amap f A = map (map f) A"

definition same_shape :: "'a array2 \<Rightarrow> 'b array2 \<Rightarrow> bool" where
  "same_shape A B = (map length A = map length B)"

text \<open>An elementwise operation on two arrays. The arrays of one simulation all have the
  shape \<open>N \<times> N\<close>; where two shapes differ numpy raises \<open>ValueError\<close> (numpy's stretching of
  an axis of length one is not modelled: it is an error here as well).\<close>

definition azip :: "('a \<Rightarrow> 'b \<Rightarrow> 'c) \<Rightarrow> 'a array2 \<Rightarrow> 'b array2 \<Rightarrow> py_error + 'c array2" where
  "azip f A B = (if same_shape A B then Inr (map2 (map2 f) A B) else Inl ValueError)"

definition amul :: "complex array2 \<Rightarrow> complex array2 \<Rightarrow> py_error + complex array2" where
  "amul A B = azip (\<lambda>a b. a * b) A B"

definition asum :: "'a::comm_monoid_add array2 \<Rightarrow> 'a" where
  "asum A = sum_list (map sum_list A)"

subsection \<open>Slices\<close>

text \<open>Python normalises a slice bound against the length: a negative bound counts from the
  end, and both are clamped to \<open>0..len\<close>.\<close>

definition slice_index :: "nat \<Rightarrow> int \<Rightarrow> nat" where
  "slice_index len i = (if i < 0 then nat (max 0 (int len + i)) else min (nat i) len)"

text \<open>\<^verbatim>\<open>xs[lo:hi]\<close>\<close>

definition slice :: "'a list \<Rightarrow> int \<Rightarrow> int \<Rightarrow> 'a list" where
  "slice xs lo hi =
     (let a = slice_index (length xs) lo; b = slice_index (length xs) hi
      in take (b - a) (drop a xs))"

text \<open>\<^verbatim>\<open>xs[lo:hi] = v\<close> for a scalar \<open>v\<close>\<close>

definition slice_assign :: "'a list \<Rightarrow> int \<Rightarrow> int \<Rightarrow> 'a \<Rightarrow> 'a list" where
  "slice_assign xs lo hi v =
     (let a = slice_index (length xs) lo; b = slice_index (length xs) hi
      in map (\<lambda>i. if a \<le> i \<and> i < b then v else xs ! i) [0..<length xs])"

subsection \<open>Propagation geometry (\<^verbatim>\<open>WavePy.__init__\<close>, lines 83 to 105)\<close>

text \<open>
  \<^verbatim>\<open>
  self.dzProps = np.ones(self.NumScr + 2) * (self.PropDist / self.NumScr)
  self.dzProps[0:2] = 0.5 * (self.PropDist / self.NumScr)
  self.dzProps[self.NumScr:self.NumScr+2] = 0.5 * (self.PropDist / self.NumScr)
  \<close>
  \<open>PropDist\<close> is a float, so the division is a true division; it raises for \<open>NumScr = 0\<close>,
  and \<^verbatim>\<open>np.ones\<close> raises for a negative length. Both are checked by \<open>init\<close> below.
\<close>

definition dzProps_of :: "int \<Rightarrow> real \<Rightarrow> real list" where
  "dzProps_of NumScr PropDist =
     (let d = PropDist / of_int NumScr;
          dz0 = map (\<lambda>one. one * d) (replicate (nat (NumScr + 2)) 1);
          dz1 = slice_assign dz0 0 2 (0.5 * d)
      in slice_assign dz1 NumScr (NumScr + 2) (0.5 * d))"

text \<open>
  \<^verbatim>\<open>
  self.PropLocs = np.zeros(self.NumScr+3)
  for zval in range(0, self.NumScr+2):
      self.PropLocs[zval + 1] = self.PropLocs[zval] + self.dzProps[zval]
  \<close>
\<close>

definition PropLocs_step :: "real list \<Rightarrow> real list \<Rightarrow> nat \<Rightarrow> real list" where
  "PropLocs_step dz locs zval = locs[Suc zval := locs ! zval + dz ! zval]"

definition PropLocs_of :: "int \<Rightarrow> real list \<Rightarrow> real list" where
  "PropLocs_of NumScr dz =
     foldl (PropLocs_step dz) (replicate (nat (NumScr + 3)) 0) [0..<nat (NumScr + 2)]"

text \<open>
  \<^verbatim>\<open>
  self.FracPropDist = self.PropLocs/self.PropDist
  self.PropSampling = (self.Rdx - self.dx)*self.FracPropDist + self.dx
  self.SamplingRatioBetweenScreen = \
      self.PropSampling[1:len(self.PropSampling)] \
      / self.PropSampling[0:len(self.PropSampling) - 1]
  \<close>
\<close>

definition FracPropDist_of :: "real list \<Rightarrow> real \<Rightarrow> real list" where
  "FracPropDist_of locs PropDist = map (\<lambda>z. z / PropDist) locs"

definition PropSampling_of :: "real \<Rightarrow> real \<Rightarrow> real list \<Rightarrow> real list" where
  "PropSampling_of dx Rdx fpd = map (\<lambda>f. (Rdx - dx) * f + dx) fpd"

definition SamplingRatio_of :: "real list \<Rightarrow> real list" where
  "SamplingRatio_of ps =
     map2 (\<lambda>a b. a / b) (slice ps 1 (int (length ps))) (slice ps 0 (int (length ps) - 1))"


subsection \<open>The simulation object (\<^verbatim>\<open>WavePy.__init__\<close>)\<close>

text \<open>The attributes of a \<^verbatim>\<open>WavePy\<close> object, \<^verbatim>\<open>self.X\<close> written \<open>self_X\<close>. \<open>self_Source\<close> is
  \<open>None\<close> when \<open>simOption\<close> selects no source, and \<open>self_rytov\<close> is an attribute that only
  \<^verbatim>\<open>SetCn2Rytov\<close> creates.\<close>

record wavepy =
  self_N :: int
  self_SideLen :: real
  self_dx :: real
  self_Rdx :: real
  self_L0 :: real
  self_l0 :: real
  self_NumScr :: int
  self_DRx :: real
  self_wvl :: real
  self_PropDist :: real
  self_Cn2 :: real
  self_simOption :: int
  self_theta :: real
  self_aniso :: real
  self_alpha :: real
  self_k :: real
  self_NumSubHarmonics :: int
  self_DTx :: real
  self_w0 :: real
  self_loon :: real
  self_Output :: "complex array2"
  self_Source :: "complex array2 option"
  self_r1 :: "real array2"
  self_x1 :: "real array2"
  self_y1 :: "real array2"
  self_rR :: "real array2"
  self_xR :: "real array2"
  self_yR :: "real array2"
  self_dzProps :: "real list"
  self_PropLocs :: "real list"
  self_ScrnLoc :: "real list"
  self_FracPropDist :: "real list"
  self_PropSampling :: "real list"
  self_SamplingRatioBetweenScreen :: "real list"
  self_r0 :: real
  self_r0scrn :: real
  self_log_ampl_var :: real
  self_phase_var :: real
  self_rho_0 :: real
  self_rytovNum :: real
  self_rytovVar :: real
  self_rytov :: "real option"

text \<open>The arguments of the constructor; \<open>default_config\<close> holds their default values.\<close>

record config =
  cfg_simOption :: int
  cfg_N :: int
  cfg_SideLen :: real
  cfg_NumScr :: int
  cfg_DRx :: real
  cfg_dx :: real
  cfg_wvl :: real
  cfg_PropDist :: real
  cfg_Cn2 :: real
  cfg_loon :: real
  cfg_aniso :: real
  cfg_Rdx :: real

definition default_config :: config where
  "default_config =
     \<lparr> cfg_simOption = 0, cfg_N = 256, cfg_SideLen = 1.0, cfg_NumScr = 10, cfg_DRx = 0.1,
       cfg_dx = 5 / 10 ^ 3, cfg_wvl = 1 / 10 ^ 6, cfg_PropDist = 10 * 10 ^ 3,
       cfg_Cn2 = 1 / 10 ^ 16, cfg_loon = 1, cfg_aniso = 1.0, cfg_Rdx = 5 / 10 ^ 3 \<rparr>"

text \<open>
  \<^verbatim>\<open>
  x = np.linspace(-self.N/2, (self.N/2)-1, self.N) * self.dx
  y = np.linspace(-self.N/2, (self.N/2)-1, self.N) * self.dx
  self.x1,  self.y1 = np.meshgrid(x,  y)
  self.r1 = np.sqrt(self.x1**2 + self.y1**2)
  \<close>
  \<open>N\<close> is an int, so both \<^verbatim>\<open>/\<close> are floor divisions.
\<close>

definition grid_axis :: "int \<Rightarrow> real \<Rightarrow> real list" where
  "grid_axis N pitch =
     map (\<lambda>v. v * pitch) (linspace (of_int ((- N) div 2)) (of_int (N div 2 - 1)) (nat N))"

definition radius :: "real array2 \<Rightarrow> real array2 \<Rightarrow> real array2" where
  "radius X Y = map2 (map2 (\<lambda>x y. sqrt (x\<^sup>2 + y\<^sup>2))) X Y"

subsubsection \<open>Sources\<close>

text \<open>\<^verbatim>\<open>PlaneSource\<close>: \<^verbatim>\<open>np.ones([self.N, self.N])\<close>\<close>

definition PlaneSource :: "int \<Rightarrow> complex array2" where
  "PlaneSource N = replicate (nat N) (replicate (nat N) 1)"

text \<open>\<^verbatim>\<open>np.sinc\<close>\<close>

definition sinc :: "real \<Rightarrow> real" where
  "sinc x = (if x = 0 then 1 else sin (pi * x) / (pi * x))"

text \<open>
  \<^verbatim>\<open>
  def PointSource(self):
      DROI = 4.0 * self.DRx
      D1 = self.wvl * self.PropDist / DROI
      R = self.PropDist
      temp = np.exp(-1j * self.k / (2 * R) * (self.r1**2)) / (D1**2)
      pt = temp * np.sinc((self.x1 / D1)) * np.sinc((self.y1 / D1)) \
          * np.exp(-(self.r1 / (4.0 * D1))**2)
      return pt
  \<close>
  The two scalar divisions raise on a zero divisor; the divisions of arrays do not.
\<close>

definition PointSource ::
  "real \<Rightarrow> real \<Rightarrow> real \<Rightarrow> real \<Rightarrow> real array2 \<Rightarrow> real array2 \<Rightarrow> real array2
     \<Rightarrow> py_error + complex array2" where
  "PointSource DRx wvl PropDist k x1 y1 r1 =
     (let DROI = 4.0 * DRx in
      err_bind (py_div (wvl * PropDist) DROI) (\<lambda>D1.
        let R = PropDist in
        if 2 * R = 0 then Inl ZeroDivisionError
        else
          let c = - \<i> * of_real k / of_real (2 * R);
              pt = (\<lambda>x y r. exp (c * of_real (r\<^sup>2)) / of_real (D1\<^sup>2)
                       * of_real (sinc (x / D1)) * of_real (sinc (y / D1))
                       * of_real (exp (- ((r / (4.0 * D1))\<^sup>2))))
          in Inr (map2 (\<lambda>xr yr. map2 (\<lambda>x (y, r). pt x y r) xr yr)
                    x1 (map2 zip y1 r1))))"

text \<open>
  \<^verbatim>\<open>
  def FlattePointSource(self):
      fpt = np.exp(-(self.r1**2) / (10 * (self.dx**2))) \
          * np.cos(-(self.r1**2) / (10 * (self.dx**2)))
      return fpt
  \<close>
\<close>

definition FlattePointSource :: "real \<Rightarrow> real array2 \<Rightarrow> complex array2" where
  "FlattePointSource dx r1 =
     amap (\<lambda>r. of_real (exp (- (r\<^sup>2) / (10 * dx\<^sup>2)) * cos (- (r\<^sup>2) / (10 * dx\<^sup>2)))) r1"

text \<open>
  \<^verbatim>\<open>MakePupil(D_eval)\<close>: the mask is 1 inside the radius \<open>D_eval\<close>, 0 outside and 0.5 on it,
  over the grid \<^verbatim>\<open>np.linspace(-SideLen/2, SideLen/2, N)\<close> in both directions; row \<open>i\<close> of
  \<open>B\<close> is constantly \<open>base[i]\<close>.
\<close>

definition MakePupil :: "int \<Rightarrow> real \<Rightarrow> real \<Rightarrow> real array2" where
  "MakePupil N SideLen D_eval =
     (let boundary1 = - (SideLen / 2);
          boundary2 = SideLen / 2;
          A = replicate (nat N) (linspace boundary1 boundary2 (nat N));
          base = linspace boundary1 boundary2 (nat N);
          B = map (\<lambda>b. map (\<lambda>one. one * b) (replicate (nat N) 1)) base;
          rad_dist = map2 (map2 (\<lambda>a b. sqrt (a\<^sup>2 + b\<^sup>2))) A B
      in amap (\<lambda>val. if val < D_eval then 1.0 else if val > D_eval then 0.0 else 0.5)
           rad_dist)"

text \<open>
  \<^verbatim>\<open>
  def CollimatedGaussian(self):
      source = np.exp(-(self.r1**2 / self.w0**2))
      source = source * self.MakePupil(self.DTx)
      return source
  \<close>
\<close>

definition CollimatedGaussian :: "int \<Rightarrow> real \<Rightarrow> real \<Rightarrow> real \<Rightarrow> real array2 \<Rightarrow> complex array2" where
  "CollimatedGaussian N SideLen DTx w0 r1 =
     map2 (map2 (\<lambda>r m. of_real (exp (- (r\<^sup>2 / w0\<^sup>2)) * m))) r1 (MakePupil N SideLen DTx)"

definition make_source ::
  "int \<Rightarrow> int \<Rightarrow> real \<Rightarrow> real \<Rightarrow> real \<Rightarrow> real \<Rightarrow> real \<Rightarrow> real \<Rightarrow> real \<Rightarrow> real
     \<Rightarrow> real array2 \<Rightarrow> real array2 \<Rightarrow> real array2 \<Rightarrow> py_error + complex array2 option" where
  "make_source simOption N SideLen DRx DTx w0 dx wvl PropDist k x1 y1 r1 =
     (if simOption = 0 then Inr (Some (PlaneSource N))
      else if simOption = 1 then
        err_bind (PointSource DRx wvl PropDist k x1 y1 r1) (\<lambda>pt. Inr (Some pt))
      else if simOption = 2 then Inr (Some (CollimatedGaussian N SideLen DTx w0 r1))
      else if simOption = 3 then Inr (Some (FlattePointSource dx r1))
      else Inr None)"

subsubsection \<open>Derived values\<close>

text \<open>
  \<^verbatim>\<open>
  self.r0 = ((0.423 * (self.k)**2 * self.Cn2 * self.PropDist) ** (-3.0 / 5.0))
  self.r0scrn = (0.423 * ((self.k)**2) * self.Cn2
                 * (self.PropDist / self.NumScr))**(-3.0 / 5.0)
  self.log_ampl_var = (0.3075 * ((self.k)**2)
                       * ((self.PropDist)**(11.0 / 6.0)) * self.Cn2)
  self.phase_var = (0.78 * (self.Cn2) * (self.k**2)
                    * self.PropDist * (self.L0**(-5.0 / 3.0)))
  self.rho_0 = (1.46 * self.Cn2 * self.k**2 * self.PropDist)**(-5.0/3.0)
  self.rytovNum = np.sqrt(1.23 * self.Cn2 * (self.k**(7 / 6)) * (self.PropDist**(11 / 6)))
  self.rytovVar = self.rytovNum**2
  \<close>
  In the Rytov number the exponents \<^verbatim>\<open>7 / 6\<close> and \<^verbatim>\<open>11 / 6\<close> are divisions of two ints.
\<close>

record derived =
  d_r0 :: real
  d_r0scrn :: real
  d_log_ampl_var :: real
  d_phase_var :: real
  d_rho_0 :: real
  d_rytovNum :: real
  d_rytovVar :: real

definition derived_values :: "real \<Rightarrow> real \<Rightarrow> real \<Rightarrow> int \<Rightarrow> real \<Rightarrow> py_error + derived" where
  "derived_values k Cn2 PropDist NumScr L0 =
     err_bind (py_pow (0.423 * k\<^sup>2 * Cn2 * PropDist) (- 3.0 / 5.0)) (\<lambda>r0.
     err_bind (py_pow (0.423 * k\<^sup>2 * Cn2 * (PropDist / of_int NumScr)) (- 3.0 / 5.0)) (\<lambda>r0scrn.
     err_bind (py_pow PropDist (11.0 / 6.0)) (\<lambda>p116.
     err_bind (py_pow L0 (- 5.0 / 3.0)) (\<lambda>l53.
     err_bind (py_pow (1.46 * Cn2 * k\<^sup>2 * PropDist) (- 5.0 / 3.0)) (\<lambda>rho_0.
       let rytovNum = sqrt (1.23 * Cn2 * (k ^ nat (7 div 6)) * (PropDist ^ nat (11 div 6)))
       in Inr \<lparr> d_r0 = r0, d_r0scrn = r0scrn,
                d_log_ampl_var = 0.3075 * k\<^sup>2 * p116 * Cn2,
                d_phase_var = 0.78 * Cn2 * k\<^sup>2 * PropDist * l53,
                d_rho_0 = rho_0, d_rytovNum = rytovNum, d_rytovVar = rytovNum\<^sup>2 \<rparr>)))))"

subsubsection \<open>The constructor\<close>

text \<open>\<^verbatim>\<open>self.ScrnLoc = np.concatenate((self.PropLocs[1:self.NumScr],
  np.array([self.PropLocs[self.NumScr + 1]])), axis=0)\<close>\<close>

definition ScrnLoc_of :: "int \<Rightarrow> real list \<Rightarrow> py_error + real list" where
  "ScrnLoc_of NumScr locs =
     err_bind (py_index locs (NumScr + 1)) (\<lambda>z. Inr (slice locs 1 NumScr @ [z]))"

text \<open>The statements of \<^verbatim>\<open>__init__\<close> in their order, so that the first one that raises
  decides the error: the wavenumber (\<^verbatim>\<open>2*pi / self.wvl\<close>), \<^verbatim>\<open>np.zeros((N, N))\<close>, the source,
  the geometry, the derived values.\<close>

definition init :: "config \<Rightarrow> py_error + wavepy" where
  "init c =
     (let N = cfg_N c; dx = cfg_dx c; Rdx = cfg_Rdx c; NumScr = cfg_NumScr c;
          PropDist = cfg_PropDist c; L0 = 1 * 10 ^ 3; l0 = 1 / 10 ^ 3; DTx = 0.1 in
      err_bind (py_div (2 * pi) (cfg_wvl c)) (\<lambda>k.
        let w0 = exp (- 1) * DTx in
        if N < 0 then Inl ValueError
        else
          let x1 = meshgrid_X (grid_axis N dx) (grid_axis N dx);
              y1 = meshgrid_Y (grid_axis N dx) (grid_axis N dx);
              r1 = radius x1 y1 in
          err_bind (make_source (cfg_simOption c) N (cfg_SideLen c) (cfg_DRx c) DTx w0 dx
                      (cfg_wvl c) PropDist k x1 y1 r1) (\<lambda>Source.
            let xR = meshgrid_X (grid_axis N Rdx) (grid_axis N Rdx);
                yR = meshgrid_Y (grid_axis N Rdx) (grid_axis N Rdx);
                rR = radius xR yR in
            if NumScr + 2 < 0 then Inl ValueError
            else if NumScr = 0 then Inl ZeroDivisionError
            else
              let dz = dzProps_of NumScr PropDist;
                  locs = PropLocs_of NumScr dz in
              err_bind (ScrnLoc_of NumScr locs) (\<lambda>ScrnLoc.
                let fpd = FracPropDist_of locs PropDist;
                    ps = PropSampling_of dx Rdx fpd in
                err_bind (derived_values k (cfg_Cn2 c) PropDist NumScr L0) (\<lambda>d.
                  Inr \<lparr> self_N = N, self_SideLen = cfg_SideLen c, self_dx = dx,
                        self_Rdx = Rdx, self_L0 = L0, self_l0 = l0, self_NumScr = NumScr,
                        self_DRx = cfg_DRx c, self_wvl = cfg_wvl c,
                        self_PropDist = PropDist, self_Cn2 = cfg_Cn2 c,
                        self_simOption = cfg_simOption c, self_theta = 0,
                        self_aniso = cfg_aniso c, self_alpha = 22.0, self_k = k,
                        self_NumSubHarmonics = 5, self_DTx = DTx, self_w0 = w0,
                        self_loon = cfg_loon c,
                        self_Output = replicate (nat N) (replicate (nat N) 0),
                        self_Source = Source, self_r1 = r1, self_x1 = x1, self_y1 = y1,
                        self_rR = rR, self_xR = xR, self_yR = yR,
                        self_dzProps = dz, self_PropLocs = locs, self_ScrnLoc = ScrnLoc,
                        self_FracPropDist = fpd, self_PropSampling = ps,
                        self_SamplingRatioBetweenScreen = SamplingRatio_of ps,
                        self_r0 = d_r0 d, self_r0scrn = d_r0scrn d,
                        self_log_ampl_var = d_log_ampl_var d,
                        self_phase_var = d_phase_var d, self_rho_0 = d_rho_0 d,
                        self_rytovNum = d_rytovNum d, self_rytovVar = d_rytovVar d,
                        self_rytov = None \<rparr>)))))"

subsection \<open>Fourier transforms (\<^verbatim>\<open>np.fft\<close>)\<close>

text \<open>\<^verbatim>\<open>np.fft.fftshift\<close> rolls every axis by half its length (rounded down) to the right,
  \<^verbatim>\<open>np.fft.ifftshift\<close> to the left.\<close>

definition fftshift :: "'a array2 \<Rightarrow> 'a array2" where
  "fftshift A = rotate ((length A + 1) div 2) (map (\<lambda>r. rotate ((length r + 1) div 2) r) A)"

definition ifftshift :: "'a array2 \<Rightarrow> 'a array2" where
  "ifftshift A = rotate (length A div 2) (map (\<lambda>r. rotate (length r div 2) r) A)"

definition ncols :: "'a array2 \<Rightarrow> nat" where
  "ncols A = (case A of [] \<Rightarrow> 0 | r # _ \<Rightarrow> length r)"

text \<open>The two-dimensional discrete Fourier transform and its inverse; numpy raises
  \<open>ValueError\<close> for an axis of length zero.\<close>

definition dft_sum :: "real \<Rightarrow> complex array2 \<Rightarrow> nat \<Rightarrow> nat \<Rightarrow> complex" where
  "dft_sum sigma A u v =
     (let M = length A; C = ncols A in
      sum_list (map (\<lambda>m. sum_list (map (\<lambda>n.
        A ! m ! n * cis (sigma * 2 * pi * (real u * real m / real M + real v * real n / real C)))
        [0..<C])) [0..<M]))"

definition fft2 :: "complex array2 \<Rightarrow> py_error + complex array2" where
  "fft2 A =
     (let M = length A; C = ncols A in
      if M = 0 \<or> C = 0 then Inl ValueError
      else Inr (map (\<lambda>u. map (\<lambda>v. dft_sum (- 1) A u v) [0..<C]) [0..<M]))"

definition ifft2 :: "complex array2 \<Rightarrow> py_error + complex array2" where
  "ifft2 A =
     (let M = length A; C = ncols A in
      if M = 0 \<or> C = 0 then Inl ValueError
      else Inr (map (\<lambda>u. map (\<lambda>v. dft_sum 1 A u v / of_nat (M * C)) [0..<C]) [0..<M]))"

subsection \<open>Propagation\<close>

text \<open>
  \<^verbatim>\<open>
  def MakeSGB(self):
      rad = self.r1 * (self.N)
      w = 0.55 * self.N
      sg = np.exp(-((rad / w)**16.0))
      return sg
  \<close>
\<close>

definition MakeSGB :: "wavepy \<Rightarrow> complex array2" where
  "MakeSGB s =
     (let w = 0.55 * of_int (self_N s)
      in amap (\<lambda>r. of_real (exp (- ((r * of_int (self_N s) / w) ^ 16)))) (self_r1 s))"

text \<open>A \<^verbatim>\<open>for\<close> loop whose body may raise.\<close>

fun for_loop :: "('a \<Rightarrow> 'i \<Rightarrow> py_error + 'a) \<Rightarrow> 'a \<Rightarrow> 'i list \<Rightarrow> py_error + 'a" where
  "for_loop body x [] = Inr x"
| "for_loop body x (i # is) = err_bind (body x i) (\<lambda>x'. for_loop body x' is)"

text \<open>\<^verbatim>\<open>a = self.N/2; nx, ny = np.meshgrid(range(-a, a), range(-a, a))\<close>\<close>

definition freq_index :: "int \<Rightarrow> int list" where
  "freq_index N = (let a = N div 2 in [- a..a - 1])"

text \<open>
  The initial and the closing quadratic phase factors, the same in both propagators:
  \<^verbatim>\<open>
  P0 = np.exp(1j * (self.k / (2*self.dzProps[0])) * (self.r1**2) * (1-SamplingRatio[0]))
  PF = np.exp(1j * (self.k / (2*self.dzProps[-1])) * (self.rR**2) * (SamplingRatio[-1]))
  \<close>
\<close>

definition quad_P0 :: "wavepy \<Rightarrow> py_error + complex array2" where
  "quad_P0 s =
     err_bind (py_index (self_dzProps s) 0) (\<lambda>dz0.
     err_bind (py_index (self_SamplingRatioBetweenScreen s) 0) (\<lambda>sr0.
       Inr (amap (\<lambda>r. exp (\<i> * of_real (self_k s / (2 * dz0)) * of_real (r\<^sup>2)
                            * of_real (1 - sr0))) (self_r1 s))))"

definition quad_PF :: "wavepy \<Rightarrow> py_error + complex array2" where
  "quad_PF s =
     err_bind (py_index (self_dzProps s) (- 1)) (\<lambda>dzl.
     err_bind (py_index (self_SamplingRatioBetweenScreen s) (- 1)) (\<lambda>srl.
       Inr (amap (\<lambda>r. exp (\<i> * of_real (self_k s / (2 * dzl)) * of_real (r\<^sup>2)
                            * of_real srl)) (self_rR s))))"

text \<open>
  One diffraction step, the same in both propagators up to its last line:
  \<^verbatim>\<open>
  UinSpec = np.fft.fftshift(np.fft.fft2(np.fft.fftshift(Uin)))
  deltaf = 1/(self.N * self.PropSampling[pcount])
  fX = nx * deltaf
  fY = ny * deltaf
  fsq = fX**2 + fY**2
  QuadPhaseFac = np.exp(-1j * np.pi * self.wvl * self.dzProps[pcount]
                        * SamplingRatio[pcount] * fsq)
  Uin = np.fft.ifftshift(np.fft.ifft2(np.fft.ifftshift(UinSpec * QuadPhaseFac)))
  \<close>
\<close>

definition diffract :: "wavepy \<Rightarrow> complex array2 \<Rightarrow> int \<Rightarrow> py_error + complex array2" where
  "diffract s Uin pcount =
     (let nx = meshgrid_X (freq_index (self_N s)) (freq_index (self_N s));
          ny = meshgrid_Y (freq_index (self_N s)) (freq_index (self_N s)) in
      err_bind (fft2 (fftshift Uin)) (\<lambda>F.
        let UinSpec = fftshift F in
        err_bind (py_index (self_PropSampling s) pcount) (\<lambda>ps.
          let deltaf = 1 / (of_int (self_N s) * ps);
              fsq = map2 (map2 (\<lambda>x y. (of_int x * deltaf)\<^sup>2 + (of_int y * deltaf)\<^sup>2)) nx ny in
          err_bind (py_index (self_dzProps s) pcount) (\<lambda>dz.
          err_bind (py_index (self_SamplingRatioBetweenScreen s) pcount) (\<lambda>sr.
            let QuadPhaseFac =
                  amap (\<lambda>f. exp (- \<i> * of_real pi * of_real (self_wvl s) * of_real dz
                                  * of_real sr * of_real f)) fsq in
            err_bind (amul UinSpec QuadPhaseFac) (\<lambda>G.
            err_bind (ifft2 (ifftshift G)) (\<lambda>H. Inr (ifftshift H))))))))"

text \<open>The planes of the loop: \<^verbatim>\<open>range(1, len(self.PropLocs)-2)\<close>\<close>

definition planes :: "wavepy \<Rightarrow> int list" where
  "planes s = [1..int (length (self_PropLocs s)) - 2 - 1]"

text \<open>
  \<^verbatim>\<open>
  def VacuumProp(self):
      ...
      Uin = P0 * self.Source
      for pcount in range(1, len(self.PropLocs)-2):
          ... (the diffraction step)
          Uin = Uin * sg
      PF = ...
      Uout = PF * Uin
      return Uout
  \<close>
\<close>

definition VacuumProp_step :: "wavepy \<Rightarrow> complex array2 \<Rightarrow> int \<Rightarrow> py_error + complex array2" where
  "VacuumProp_step s Uin pcount =
     err_bind (diffract s Uin pcount) (\<lambda>U. amul U (MakeSGB s))"

definition VacuumProp :: "wavepy \<Rightarrow> py_error + complex array2" where
  "VacuumProp s =
     err_bind (quad_P0 s) (\<lambda>P0.
       case self_Source s of
         None \<Rightarrow> Inl TypeError
       | Some Source \<Rightarrow>
           err_bind (amul P0 Source) (\<lambda>Uin.
           err_bind (for_loop (VacuumProp_step s) Uin (planes s)) (\<lambda>Uin.
           err_bind (quad_PF s) (\<lambda>PF. amul PF Uin))))"

text \<open>
  \<^verbatim>\<open>
  def SplitStepProp(self, Uin, PhaseScreenStack):
      ...
      Uin = P0 * self.Source * np.exp(1j * PhaseScreenStack[:, :, 0])
      for pcount in range(1, len(self.PropLocs)-2):
          ... (the diffraction step)
          Uin = Uin * sg * np.exp(1j * PhaseScreenStack[:, :, pcount-1])
      PF = ...
      Uout = PF * Uin
      return Uout
  \<close>
  The stack is the list of its screens: \<^verbatim>\<open>PhaseScreenStack[:, :, k]\<close> is its element \<open>k\<close>.
  The argument \<^verbatim>\<open>Uin\<close> is a field, or \<^verbatim>\<open>None\<close> when \<^verbatim>\<open>TurbSim\<close> passes a source that was never
  made.
\<close>

definition screen_factor :: "complex array2 list \<Rightarrow> int \<Rightarrow> py_error + complex array2" where
  "screen_factor PhaseScreenStack k =
     err_bind (py_index PhaseScreenStack k) (\<lambda>scr. Inr (amap (\<lambda>z. exp (\<i> * z)) scr))"

definition SplitStepProp_step ::
  "wavepy \<Rightarrow> complex array2 list \<Rightarrow> complex array2 \<Rightarrow> int \<Rightarrow> py_error + complex array2" where
  "SplitStepProp_step s PhaseScreenStack Uin pcount =
     err_bind (diffract s Uin pcount) (\<lambda>U.
     err_bind (amul U (MakeSGB s)) (\<lambda>U.
     err_bind (screen_factor PhaseScreenStack (pcount - 1)) (\<lambda>T. amul U T)))"

definition SplitStepProp ::
  "wavepy \<Rightarrow> complex array2 option \<Rightarrow> complex array2 list \<Rightarrow> py_error + complex array2" where
  "SplitStepProp s Uin PhaseScreenStack =
     err_bind (quad_P0 s) (\<lambda>P0.
       case self_Source s of
         None \<Rightarrow> Inl TypeError
       | Some Source \<Rightarrow>
           err_bind (amul P0 Source) (\<lambda>U.
           err_bind (screen_factor PhaseScreenStack 0) (\<lambda>T.
           err_bind (amul U T) (\<lambda>Uin.
           err_bind (for_loop (SplitStepProp_step s PhaseScreenStack) Uin (planes s)) (\<lambda>Uin.
           err_bind (quad_PF s) (\<lambda>PF. amul PF Uin))))))"

subsection \<open>Random draws\<close>

text \<open>\<^verbatim>\<open>np.random.randn\<close> reads numpy's process-wide generator. Its state is the stream of
  standard normal variates it will deliver next; a call takes the first \<open>rows * cols\<close> of
  them, row by row, and leaves the rest.\<close>

type_synonym rng = "nat \<Rightarrow> real"

definition randn :: "nat \<Rightarrow> nat \<Rightarrow> rng \<Rightarrow> real array2 \<times> rng" where
  "randn rows cols g =
     (map (\<lambda>i. map (\<lambda>j. g (i * cols + j)) [0..<cols]) [0..<rows], \<lambda>n. g (n + rows * cols))"

text \<open>\<^verbatim>\<open>np.random.randn(r, c) + 1j*np.random.randn(r, c)\<close>\<close>

definition crandn :: "nat \<Rightarrow> nat \<Rightarrow> rng \<Rightarrow> complex array2 \<times> rng" where
  "crandn rows cols g =
     (let (re, g1) = randn rows cols g; (im, g2) = randn rows cols g1
      in (map2 (map2 (\<lambda>x y. Complex x y)) re im, g2))"

subsection \<open>Phase screens (\<^verbatim>\<open>PhaseScreen\<close>)\<close>

text \<open>\<^verbatim>\<open>math.gamma\<close> is a function of Python's library: the model takes it as the parameter
  \<open>gamma\<close>, which may raise (at a pole, or on overflow).\<close>

type_synonym gamma_fn = "real \<Rightarrow> py_error + real"

text \<open>
  The consistency parameters of one power law \<open>na\<close>, computed twice by \<^verbatim>\<open>PhaseScreen\<close>, for
  \<^verbatim>\<open>na = self.alpha/6.0\<close> and for the Kolmogorov value \<^verbatim>\<open>nae = 22/6.0\<close>, in this order:
  \<^verbatim>\<open>
  Bnum = gamma(na/2.0)
  Bdenom = 2.0**(2.0-na)*pi*na*gamma(-na/2.0)
  cone = (2.0 * (8.0 / (na - 2.0) * gamma(2.0 / (na - 2.0)))**((na - 2.0) / 2.0))
  Bfac = (2.0*pi)**(2.0-na) * (Bnum/Bdenom)
  a = gamma(na-1.0)*cos(na*pi/2.0)/(4.0*pi**2.0)
  c_a = ((gamma(0.5 * (5.0 - na)) * a * 2.0 * pi / 3.0) ** (1.0 / (na - 5.0)))
  fm = c_a/self.l0
  \<close>
  The result is \<open>(cone, Bfac, fm)\<close>.
\<close>

definition psd_consts :: "gamma_fn \<Rightarrow> real \<Rightarrow> real \<Rightarrow> py_error + real \<times> real \<times> real" where
  "psd_consts gamma na l0 =
     err_bind (gamma (na / 2.0)) (\<lambda>Bnum.
     err_bind (py_pow 2.0 (2.0 - na)) (\<lambda>p2.
     err_bind (gamma (- na / 2.0)) (\<lambda>gm.
       let Bdenom = p2 * pi * na * gm in
       err_bind (py_div 8.0 (na - 2.0)) (\<lambda>e.
       err_bind (py_div 2.0 (na - 2.0)) (\<lambda>t.
       err_bind (gamma t) (\<lambda>gt.
       err_bind (py_pow (e * gt) ((na - 2.0) / 2.0)) (\<lambda>pc.
         let cone = 2.0 * pc in
         err_bind (py_pow (2.0 * pi) (2.0 - na)) (\<lambda>p2pi.
         err_bind (py_div Bnum Bdenom) (\<lambda>q.
           let Bfac = p2pi * q in
           err_bind (gamma (na - 1.0)) (\<lambda>g1.
             let a = g1 * cos (na * pi / 2.0) / (4.0 * pi\<^sup>2) in
             err_bind (gamma (0.5 * (5.0 - na))) (\<lambda>g5.
             err_bind (py_div 1.0 (na - 5.0)) (\<lambda>ex.
             err_bind (py_pow (g5 * a * 2.0 * pi / 3.0) ex) (\<lambda>c_a.
             err_bind (py_div c_a l0) (\<lambda>fm. Inr (cone, Bfac, fm)))))))))))))))"

text \<open>
  The frequency grid:
  \<^verbatim>\<open>
  fx = np.arange(-self.N/2.0,  self.N/2.0) * del_f
  fx,  fy = np.meshgrid(fx, -1*fx)
  tx = fx*cos(thetar) + fy*sin(thetar)
  ty = -1.0*fx*sin(thetar) + fy*cos(thetar)
  f = np.sqrt((tx**2.0)/(b**2.0) + (ty**2.0)/(c**2.0))
  \<close>
\<close>

definition freq_grid :: "int \<Rightarrow> real \<Rightarrow> real \<Rightarrow> real \<Rightarrow> real \<Rightarrow> real array2" where
  "freq_grid N del_f thetar b c =
     (let fx0 = map (\<lambda>i. (- of_int N / 2.0 + real i) * del_f) [0..<nat N];
          fx = meshgrid_X fx0 (map (\<lambda>v. - 1 * v) fx0);
          fy = meshgrid_Y fx0 (map (\<lambda>v. - 1 * v) fx0)
      in map2 (map2 (\<lambda>x y.
           let tx = x * cos thetar + y * sin thetar;
               ty = - 1.0 * x * sin thetar + y * cos thetar
           in sqrt (tx\<^sup>2 / b\<^sup>2 + ty\<^sup>2 / c\<^sup>2))) fx fy)"

text \<open>\<^verbatim>\<open>A[i, j] = v\<close> for ints \<open>i, j \<ge> 0\<close>\<close>

definition aset :: "'a array2 \<Rightarrow> nat \<Rightarrow> nat \<Rightarrow> 'a \<Rightarrow> py_error + 'a array2" where
  "aset A i j v =
     (if i < length A \<and> j < length (A ! i) then Inr (A[i := (A ! i)[j := v]])
      else Inl IndexError)"

text \<open>
  The sampled spectrum, up to the array that filters the noise:
  \<^verbatim>\<open>
  PSD_phi = (cone * Bfac * ((b * c)**(-na / 2.0))
             * (self.r0scrn**(2.0 - na)) * np.exp(-(f / fm)**2.0)
             / ((f**2.0 + f0**2.0)**(na / 2.0)))
  tot_NOK = np.sum(PSD_phi)
  PSD_phie = (conee * Bface * (self.r0scrn**(2.0 - nae))
              * np.exp(-(f / fme)**2.0)
              / ((f**2.0 + f0**2.0)**(nae / 2.0)))
  tot_OK = np.sum(PSD_phie)
  PSD_phi = (tot_OK/tot_NOK) * PSD_phi
  PSD_phi[np.int(cen), np.int(cen)] = 0.0
  \<close>
  The result keeps every stage: \<open>psd_f\<close> is the frequency grid \<^verbatim>\<open>f\<close>, \<open>PSD_raw\<close> the first
  \<^verbatim>\<open>PSD_phi\<close>, \<open>PSD_ref\<close> is \<^verbatim>\<open>PSD_phie\<close>, \<open>PSD_normalized\<close> the second \<^verbatim>\<open>PSD_phi\<close> and
  \<open>PSD_final\<close> the array after its centre cell is set to zero.
\<close>

record psd_arrays =
  psd_del_f :: real
  psd_f :: "real array2"
  PSD_raw :: "real array2"
  PSD_ref :: "real array2"
  psd_tot_NOK :: real
  psd_tot_OK :: real
  PSD_normalized :: "real array2"
  PSD_final :: "real array2"

definition psd_profile :: "real \<Rightarrow> real \<Rightarrow> real \<Rightarrow> real \<Rightarrow> real array2 \<Rightarrow> real array2" where
  "psd_profile pre fm f0 na f =
     amap (\<lambda>f. pre * exp (- ((f / fm)\<^sup>2)) / ((f\<^sup>2 + f0\<^sup>2) powr (na / 2.0))) f"

definition PhaseScreen_PSD :: "gamma_fn \<Rightarrow> wavepy \<Rightarrow> py_error + psd_arrays" where
  "PhaseScreen_PSD gamma s =
     (let b = self_aniso s; c = 1.0;
          thetar = (pi / 180.0) * self_theta s;
          delta = self_dx s in
      err_bind (py_div 1.0 (of_int (self_N s) * delta)) (\<lambda>del_f.
        let cen = self_N s div 2;
            na = self_alpha s / 6.0 in
        err_bind (psd_consts gamma na (self_l0 s)) (\<lambda>(cone, Bfac, fm).
          let nae = 22 / 6.0 in
          err_bind (psd_consts gamma nae (self_l0 s)) (\<lambda>(conee, Bface, fme).
          err_bind (py_div 1.0 (self_L0 s)) (\<lambda>f0.
            let f = freq_grid (self_N s) del_f thetar b c in
            err_bind (py_pow (b * c) (- na / 2.0)) (\<lambda>pbc.
            err_bind (py_pow (self_r0scrn s) (2.0 - na)) (\<lambda>pr0.
              let PSD_phi = psd_profile (cone * Bfac * pbc * pr0) fm f0 na f;
                  tot_NOK = asum PSD_phi in
              err_bind (py_pow (self_r0scrn s) (2.0 - nae)) (\<lambda>pr0e.
                let PSD_phie = psd_profile (conee * Bface * pr0e) fme f0 nae f;
                    tot_OK = asum PSD_phie;
                    PSD_phi2 = amap (\<lambda>v. (tot_OK / tot_NOK) * v) PSD_phi in
                err_bind (aset PSD_phi2 (nat cen) (nat cen) 0.0) (\<lambda>PSD_phi3.
                  Inr \<lparr> psd_del_f = del_f, psd_f = f, PSD_raw = PSD_phi, PSD_ref = PSD_phie,
                        psd_tot_NOK = tot_NOK, psd_tot_OK = tot_OK,
                        PSD_normalized = PSD_phi2, PSD_final = PSD_phi3 \<rparr>)))))))))"

text \<open>
  \<^verbatim>\<open>
  cn = (np.random.randn(self.N, self.N) + 1j*np.random.randn(self.N, self.N))
  cn = cn * np.sqrt(PSD_phi)*del_f
  phz_temp = np.fft.ifft2(np.fft.fftshift(cn))*((self.N)**2)
  phz1 = np.real(phz_temp)
  return phz1
  \<close>
\<close>

definition PhaseScreen :: "gamma_fn \<Rightarrow> wavepy \<Rightarrow> rng \<Rightarrow> py_error + real array2 \<times> rng" where
  "PhaseScreen gamma s g =
     err_bind (PhaseScreen_PSD gamma s) (\<lambda>p.
       let (cn, g') = crandn (nat (self_N s)) (nat (self_N s)) g;
           cn = map2 (map2 (\<lambda>z v. z * of_real (sqrt v) * of_real (psd_del_f p))) cn (PSD_final p) in
       err_bind (ifft2 (fftshift cn)) (\<lambda>F.
         let phz_temp = amap (\<lambda>z. z * of_int ((self_N s)\<^sup>2)) F
         in Inr (amap Re phz_temp, g')))"

subsection \<open>Subharmonics (\<^verbatim>\<open>SubHarmonicComp\<close>)\<close>

text \<open>
  The scalars before the loop, in the order of the source:
  \<^verbatim>\<open>
  dq = 1/self.SideLen
  na = self.alpha/6.0
  Bnum = gamma(na/2.0)
  Bdenom = (2**(2-na)) * pi * na * gamma(-na/2)
  Bfac = (2*pi)**(2-na) * (Bnum/Bdenom)
  cone = (2 * (8 / (na - 2) * gamma(2 / (na - 2)))**((na - 2) / 2))
  b = self.aniso
  c = 1
  f0 = 1/self.L0
  \<close>
  The result is \<open>(dq, na, Bfac, cone, f0)\<close>.
\<close>

definition sh_consts ::
  "gamma_fn \<Rightarrow> wavepy \<Rightarrow> py_error + real \<times> real \<times> real \<times> real \<times> real" where
  "sh_consts gamma s =
     err_bind (py_div 1 (self_SideLen s)) (\<lambda>dq.
       let na = self_alpha s / 6.0 in
       err_bind (gamma (na / 2.0)) (\<lambda>Bnum.
       err_bind (py_pow 2 (2 - na)) (\<lambda>p2.
       err_bind (gamma (- na / 2)) (\<lambda>gm.
         let Bdenom = p2 * pi * na * gm in
         err_bind (py_pow (2 * pi) (2 - na)) (\<lambda>p2pi.
         err_bind (py_div Bnum Bdenom) (\<lambda>q.
           let Bfac = p2pi * q in
           err_bind (py_div 8 (na - 2)) (\<lambda>e.
           err_bind (py_div 2 (na - 2)) (\<lambda>t.
           err_bind (gamma t) (\<lambda>gt.
           err_bind (py_pow (e * gt) ((na - 2) / 2)) (\<lambda>pc.
             let cone = 2 * pc in
             err_bind (py_div 1 (self_L0 s)) (\<lambda>f0.
               Inr (dq, na, Bfac, cone, f0))))))))))))"

text \<open>
  \<^verbatim>\<open>
  temp_m = np.linspace(-0.5, 0.5, self.N)
  m_indices,  n_indices = np.meshgrid(temp_m,  -1*np.transpose(temp_m))
  temp_mp = np.linspace(-2.5, 2.5, 6)
  m_prime_indices, n_prime_indices = np.meshgrid(temp_mp, -1 * np.transpose(temp_mp))
  \<close>
\<close>

definition m_indices :: "int \<Rightarrow> real array2" where
  "m_indices N =
     meshgrid_X (linspace (- 0.5) 0.5 (nat N)) (map (\<lambda>v. - 1 * v) (linspace (- 0.5) 0.5 (nat N)))"

definition n_indices :: "int \<Rightarrow> real array2" where
  "n_indices N =
     meshgrid_Y (linspace (- 0.5) 0.5 (nat N)) (map (\<lambda>v. - 1 * v) (linspace (- 0.5) 0.5 (nat N)))"

definition m_prime_indices :: "real array2" where
  "m_prime_indices = meshgrid_X (linspace (- 2.5) 2.5 6) (map (\<lambda>v. - 1 * v) (linspace (- 2.5) 2.5 6))"

definition n_prime_indices :: "real array2" where
  "n_prime_indices = meshgrid_Y (linspace (- 2.5) 2.5 6) (map (\<lambda>v. - 1 * v) (linspace (- 2.5) 2.5 6))"

text \<open>
  The inner double loop over the 6 by 6 components of one order:
  \<^verbatim>\<open>
  for n in range(0,  temp_shape[0]):
      for m in range(0, temp_shape[1]):
          indexMap = (m_prime_indices[n][m]*m_indices + n_prime_indices[n][m]*n_indices)
          temp_phz = temp_phz + cv[m][n] * np.exp(1j * 2 * pi * (3**(-Np)) * indexMap)
  \<close>
\<close>

definition sh_component :: "int \<Rightarrow> int \<Rightarrow> complex array2 \<Rightarrow> complex array2 \<Rightarrow> nat \<times> nat \<Rightarrow> complex array2" where
  "sh_component N Np cv temp_phz nm =
     (let n = fst nm; m = snd nm;
          indexMap = map2 (map2 (\<lambda>mi ni. m_prime_indices ! n ! m * mi + n_prime_indices ! n ! m * ni))
                       (m_indices N) (n_indices N)
      in map2 (map2 (\<lambda>t im. t + cv ! m ! n * exp (\<i> * 2 * of_real pi * of_real (3 powi (- Np)) * of_real im)))
           temp_phz indexMap)"

text \<open>
  One order \<open>Np\<close>:
  \<^verbatim>\<open>
  temp_phz = np.zeros((self.N, self.N))
  dqp = dq/(3.0**Np)
  f_x = 3**(-Np)*m_prime_indices*dq
  f_y = 3**(-Np)*n_prime_indices*dq
  f = np.sqrt((f_x**2)/(b**2) + (f_y**2)/(c**2))
  PSD_fi = cone * Bfac * ((b * c)**(-na / 2)) \
      * (self.r0scrn)**(2-na) * (f**2 + f0**2)**(-na / 2)
  w = np.random.randn(6, 6) + 1j*np.random.randn(6, 6)
  cv = w * np.sqrt(PSD_fi)*dqp
  ... (the double loop)
  lof_phz = lof_phz + temp_phz
  \<close>
  The state of the loop is \<open>lof_phz\<close> and the generator.
\<close>

definition sh_order ::
  "wavepy \<Rightarrow> real \<times> real \<times> real \<times> real \<times> real \<Rightarrow> complex array2 \<times> rng \<Rightarrow> int
     \<Rightarrow> py_error + complex array2 \<times> rng" where
  "sh_order s cs st Np =
     (let (dq, na, Bfac, cone, f0) = cs; (lof_phz, g) = st;
          b = self_aniso s; c = 1;
          N = self_N s;
          temp_phz = replicate (nat N) (replicate (nat N) 0);
          dqp = dq / (3.0 powi Np);
          f = map2 (map2 (\<lambda>mp np. sqrt ((3 powi (- Np) * mp * dq)\<^sup>2 / b\<^sup>2
                                        + (3 powi (- Np) * np * dq)\<^sup>2 / c\<^sup>2)))
                m_prime_indices n_prime_indices in
      err_bind (py_pow (b * c) (- na / 2)) (\<lambda>pbc.
      err_bind (py_pow (self_r0scrn s) (2 - na)) (\<lambda>pr0.
        let PSD_fi = amap (\<lambda>f. cone * Bfac * pbc * pr0 * (f\<^sup>2 + f0\<^sup>2) powr (- na / 2)) f;
            (w, g') = crandn 6 6 g;
            cv = map2 (map2 (\<lambda>w v. w * of_real (sqrt v) * of_real dqp)) w PSD_fi;
            temp_phz = foldl (sh_component N Np cv) temp_phz
                         (concat (map (\<lambda>n. map (\<lambda>m. (n, m)) [0..<6]) [0..<6]))
        in Inr (map2 (map2 (\<lambda>a t. a + t)) lof_phz temp_phz, g'))))"

text \<open>\<^verbatim>\<open>np.mean\<close> of a two-dimensional array with \<open>N\<close> rows of \<open>N\<close> entries\<close>

definition amean :: "real array2 \<Rightarrow> real" where
  "amean A = asum A / real (sum_list (map length A))"

text \<open>
  \<^verbatim>\<open>
  lof_phz = np.zeros((self.N, self.N))
  ...
  for Np in range(1, nsub+1):
      ...
  lof_phz = np.real(lof_phz) - np.mean(np.real(lof_phz))
  return lof_phz
  \<close>
  The mean and the subtraction are float64 operations that round. The model computes them
  in exact arithmetic, as everywhere, so it does not tell how far the sum of the returned
  array is from zero in the program; nothing below rests on this last line.
\<close>

definition SubHarmonicComp ::
  "gamma_fn \<Rightarrow> wavepy \<Rightarrow> int \<Rightarrow> rng \<Rightarrow> py_error + real array2 \<times> rng" where
  "SubHarmonicComp gamma s nsub g =
     err_bind (sh_consts gamma s) (\<lambda>cs.
       let lof_phz = replicate (nat (self_N s)) (replicate (nat (self_N s)) 0) in
       err_bind (for_loop (sh_order s cs) (lof_phz, g) [1..nsub]) (\<lambda>(lof_phz, g').
         Inr (amap (\<lambda>v. v - amean (amap Re lof_phz)) (amap Re lof_phz), g')))"

subsection \<open>The simulation (\<^verbatim>\<open>TurbSim\<close>)\<close>

text \<open>
  One pass of the loop over the screens:
  \<^verbatim>\<open>
  phz_hi[:, :, idxscr] = self.PhaseScreen()
  phz_lo[:, :, idxscr] = self.SubHarmonicComp(self.NumSubHarmonics)
  phz[:, :, idxscr] = self.loon * phz_lo[:, :, idxscr] + phz_hi[:, :, idxscr]
  \<close>
  The state of the loop is the list of the screens made so far and the generator.
\<close>

definition TurbSim_screen ::
  "gamma_fn \<Rightarrow> wavepy \<Rightarrow> real array2 list \<times> rng \<Rightarrow> int \<Rightarrow> py_error + real array2 list \<times> rng" where
  "TurbSim_screen gamma s st idxscr =
     (let (phz, g) = st in
      err_bind (PhaseScreen gamma s g) (\<lambda>(phz_hi, g1).
      err_bind (SubHarmonicComp gamma s (self_NumSubHarmonics s) g1) (\<lambda>(phz_lo, g2).
      err_bind (azip (\<lambda>lo hi. self_loon s * lo + hi) phz_lo phz_hi) (\<lambda>scr.
        Inr (phz @ [scr], g2)))))"

text \<open>\<^verbatim>\<open>self.Output = self.SplitStepProp(self.Source,  np.exp(1j*phz))\<close>\<close>

definition TurbSim_propagate :: "wavepy \<Rightarrow> real array2 list \<Rightarrow> py_error + complex array2" where
  "TurbSim_propagate s phz =
     SplitStepProp s (self_Source s) (map (amap (\<lambda>p. exp (\<i> * of_real p))) phz)"

definition TurbSim :: "gamma_fn \<Rightarrow> wavepy \<Rightarrow> rng \<Rightarrow> py_error + wavepy \<times> rng" where
  "TurbSim gamma s g =
     (if self_NumScr s < 0 then Inl ValueError
      else
        err_bind (for_loop (TurbSim_screen gamma s) ([], g) [0..self_NumScr s - 1]) (\<lambda>(phz, g').
        err_bind (TurbSim_propagate s phz) (\<lambda>Uout.
          Inr (s\<lparr> self_Output := Uout \<rparr>, g'))))"

subsection \<open>\<^verbatim>\<open>SetCn2Rytov\<close>\<close>

text \<open>
  \<^verbatim>\<open>
  def SetCn2Rytov(self, UserRytov):
      self.rytovNum = UserRytov
      self.rytov = self.rytovNum**2
      rytov_denom = 1.23*(self.k)**(7.0/6.0)*(self.PropDist)**(11.0/6.0)
      self.Cn2 = self.rytov/rytov_denom
      self.r0 = (0.423 * (self.k)**2 * self.Cn2 * self.PropDist)**(-3.0/5.0)
      self.r0scrn = (0.423 * ((self.k)**2) * self.Cn2
                     * (self.PropDist / self.NumScr))**(-3.0/5.0)
      self.log_ampl_var = 0.3075 * ((self.k)**2) \
          * ((self.PropDist)**(11.0 / 6.0)) * self.Cn2
      self.phase_var = 0.78 * (self.Cn2) * (self.k**2) * self.PropDist \
          * (self.L0**(-5.0 / 3.0))
      self.rho_0 = (1.46 * self.Cn2 * self.k**2 * self.PropDist)**(-5.0/3.0)
  \<close>
  An exception leaves the object as the assignments before it made it; the model returns
  the error alone.
\<close>

definition SetCn2Rytov :: "wavepy \<Rightarrow> real \<Rightarrow> py_error + wavepy" where
  "SetCn2Rytov s UserRytov =
     (let rytovNum = UserRytov;
          rytov = rytovNum\<^sup>2 in
      err_bind (py_pow (self_k s) (7.0 / 6.0)) (\<lambda>pk.
      err_bind (py_pow (self_PropDist s) (11.0 / 6.0)) (\<lambda>pL.
        let rytov_denom = 1.23 * pk * pL in
        err_bind (py_div rytov rytov_denom) (\<lambda>Cn2.
        err_bind (py_pow (0.423 * (self_k s)\<^sup>2 * Cn2 * self_PropDist s) (- 3.0 / 5.0)) (\<lambda>r0.
        if self_NumScr s = 0 then Inl ZeroDivisionError
        else
        err_bind (py_pow (0.423 * (self_k s)\<^sup>2 * Cn2 * (self_PropDist s / of_int (self_NumScr s)))
                    (- 3.0 / 5.0)) (\<lambda>r0scrn.
        err_bind (py_pow (self_PropDist s) (11.0 / 6.0)) (\<lambda>p116.
        err_bind (py_pow (self_L0 s) (- 5.0 / 3.0)) (\<lambda>l53.
        err_bind (py_pow (1.46 * Cn2 * (self_k s)\<^sup>2 * self_PropDist s) (- 5.0 / 3.0)) (\<lambda>rho_0.
          Inr (s\<lparr> self_rytovNum := rytovNum, self_rytov := Some rytov, self_Cn2 := Cn2,
                  self_r0 := r0, self_r0scrn := r0scrn,
                  self_log_ampl_var := 0.3075 * (self_k s)\<^sup>2 * p116 * Cn2,
                  self_phase_var := 0.78 * Cn2 * (self_k s)\<^sup>2 * self_PropDist s * l53,
                  self_rho_0 := rho_0 \<rparr>))))))))))"

section \<open>The atmosphere (\<^verbatim>\<open>atmos.py\<close>, class \<^verbatim>\<open>Atmos\<close>)\<close>

text \<open>The values of the keyword arguments \<^verbatim>\<open>**settings\<close> are \<open>pyval\<close>s.\<close>

text \<open>What a screen method is called with: a setting, or the spectrum function \<^verbatim>\<open>self.psd\<close>
  (\<^verbatim>\<open>None\<close> when there is none).\<close>

datatype 'p arg = ArgVal pyval | ArgPsd "'p option"

text \<open>\<^verbatim>\<open>d[key]\<close> on a dict\<close>

definition dict_get :: "(string \<rightharpoonup> 'v) \<Rightarrow> string \<Rightarrow> py_error + 'v" where
  "dict_get d key = (case d key of None \<Rightarrow> Inl (KeyError (PyStr key)) | Some v \<Rightarrow> Inr v)"

text \<open>
  The modules \<^verbatim>\<open>psd\<close> and \<^verbatim>\<open>phase_screen\<close> are imported by \<^verbatim>\<open>atmos.py\<close> and are not among
  the sources. Their functions are parameters of the model: \<open>psd_mod name args\<close> is the
  call of the spectrum factory filed under \<open>name\<close> in \<^verbatim>\<open>psd_dict\<close>, and \<open>scr_mod name args g\<close>
  the call of the screen method filed under \<open>name\<close> in \<^verbatim>\<open>screen_method_dict\<close>, on the state
  \<open>g\<close> of whatever source of randomness it reads.
  \<^verbatim>\<open>
  screen_method_dict = {'ft_sh': ..., 'ft': ..., 'vacuum': ...}
  psd_dict = {'kolmogorov': ..., 'vonKarman': ..., 'modified_vonKarman': ..., 'wavepy_og': ...}
  \<close>
\<close>

type_synonym 'p psd_module = "string \<Rightarrow> pyval list \<Rightarrow> py_error + 'p"

type_synonym ('p, 'scr, 'g) screen_module = "string \<Rightarrow> 'p arg list \<Rightarrow> 'g \<Rightarrow> py_error + 'scr \<times> 'g"

definition screen_method_dict ::
  "('p, 'scr, 'g) screen_module \<Rightarrow> string \<rightharpoonup> ('p arg list \<Rightarrow> 'g \<Rightarrow> py_error + 'scr \<times> 'g)" where
  "screen_method_dict scr_mod name =
     (if name \<in> {''ft_sh'', ''ft'', ''vacuum''} then Some (scr_mod name) else None)"

definition psd_dict :: "'p psd_module \<Rightarrow> string \<rightharpoonup> (pyval list \<Rightarrow> py_error + 'p)" where
  "psd_dict psd_mod name =
     (if name \<in> {''kolmogorov'', ''vonKarman'', ''modified_vonKarman'', ''wavepy_og''}
      then Some (psd_mod name) else None)"

record ('p, 'scr) atmos =
  n_gridpts :: int
  screen_locations :: "real list"
  dx_sampling :: "real list"
  n_scr :: nat
  screen_method_name :: pyval
  settings :: "string \<rightharpoonup> pyval"
  psd_name :: "pyval option"
  psd :: "'p option"
  r0s :: "pyval list"
  screen :: "'scr list"

text \<open>A dict lookup whose key is a value: a key that is not a string is in neither table.\<close>

definition dict_get_val :: "(string \<rightharpoonup> 'v) \<Rightarrow> pyval \<Rightarrow> py_error + 'v" where
  "dict_get_val d key =
     (case key of PyStr n \<Rightarrow> dict_get d n | _ \<Rightarrow> Inl (KeyError key))"

text \<open>Running a list of computations that may raise, in order.\<close>

fun collect :: "(py_error + 'a) list \<Rightarrow> py_error + 'a list" where
  "collect [] = Inr []"
| "collect (m # ms) = err_bind m (\<lambda>v. err_bind (collect ms) (\<lambda>vs. Inr (v # vs)))"

text \<open>
  \<^verbatim>\<open>
  def __psd_setup(self):
      psd_input_dict = {
          'kolmogorov': [],
          'vonKarman': ['L0'],
          'modified_vonKarman': ['L0', 'l0']
      }
      psd_raw = psd_dict[self.psd_name]
      setting_names = psd_input_dict[self.psd_name]
      psdfn = psd_raw(*[self.settings[setting_name] for setting_name in setting_names])
      return psdfn
  \<close>
\<close>

definition psd_input_dict :: "string \<rightharpoonup> string list" where
  "psd_input_dict =
     [''kolmogorov'' \<mapsto> [], ''vonKarman'' \<mapsto> [''L0''], ''modified_vonKarman'' \<mapsto> [''L0'', ''l0'']]"

definition psd_setup :: "'p psd_module \<Rightarrow> pyval \<Rightarrow> (string \<rightharpoonup> pyval) \<Rightarrow> py_error + 'p" where
  "psd_setup psd_mod the_psd_name the_settings =
     err_bind (dict_get_val (psd_dict psd_mod) the_psd_name) (\<lambda>psd_raw.
     err_bind (dict_get_val psd_input_dict the_psd_name) (\<lambda>setting_names.
     err_bind (collect (map (dict_get the_settings) setting_names)) (\<lambda>args.
       psd_raw args)))"

text \<open>
  \<^verbatim>\<open>
  try:
      self.psd_name = settings['psd_name']
      self.psd = self.__psd_setup()
  except KeyError:
      self.psd = None
  \<close>
  The result is the pair of the attributes \<^verbatim>\<open>psd_name\<close> (unset when the first line raised)
  and \<^verbatim>\<open>psd\<close>. Only a \<open>KeyError\<close> is caught.
\<close>

definition is_KeyError :: "py_error \<Rightarrow> bool" where
  "is_KeyError e = (case e of KeyError _ \<Rightarrow> True | _ \<Rightarrow> False)"

definition try_psd ::
  "'p psd_module \<Rightarrow> (string \<rightharpoonup> pyval) \<Rightarrow> (string \<rightharpoonup> pyval) \<Rightarrow> py_error + pyval option \<times> 'p option" where
  "try_psd psd_mod all_settings the_settings =
     (case dict_get all_settings ''psd_name'' of
        Inl e \<Rightarrow> Inr (None, None)
      | Inr name \<Rightarrow>
          (case psd_setup psd_mod name the_settings of
             Inl e \<Rightarrow> if is_KeyError e then Inr (Some name, None) else Inl e
           | Inr p \<Rightarrow> Inr (Some name, Some p)))"

text \<open>\<^verbatim>\<open>self.settings['r0'] / self.n_scr**(-3 / 5)\<close>, in Python 3\<close>

definition r0_share :: "pyval \<Rightarrow> nat \<Rightarrow> py_error + pyval" where
  "r0_share r0 n =
     (let d = real n powr (- 3 / 5) in
      case r0 of
        PyStr _ \<Rightarrow> Inl TypeError
      | PyInt i \<Rightarrow> if d = 0 then Inl ZeroDivisionError else Inr (PyFloat (of_int i / d))
      | PyFloat r \<Rightarrow> if d = 0 then Inl ZeroDivisionError else Inr (PyFloat (r / d))
      | PyInf \<Rightarrow> if d = 0 then Inl ZeroDivisionError else Inr PyInf)"

text \<open>
  \<^verbatim>\<open>
  def __screen_method_input(self):
      phase_screen_input_dict = {
          'vacuum': ['N'],
          'ft': ['N', 'dx', 'r0', 'psd'],
          'ft_sh': ['N', 'dx', 'n_subharm', 'r0', 'psd']
          }
      keys = phase_screen_input_dict[self.screen_method_name]
      a = {'N': self.n_gridpts, 'psd': self.psd, **self.settings}
      for (dx, r0) in zip(self.dx_sampling, self.r0s):
          a = {'dx': dx, 'r0': r0, **a}
          yield [a[key] for key in keys]
  \<close>
  A generator: \<open>screen_inputs\<close> is what it yields for the pairs still to come, given the
  dict \<open>a\<close> so far. A later entry of a dict display wins, so \<^verbatim>\<open>**a\<close> keeps its own \<open>dx\<close>
  and \<open>r0\<close>.
\<close>

definition phase_screen_input_dict :: "string \<rightharpoonup> string list" where
  "phase_screen_input_dict =
     [''vacuum'' \<mapsto> [''N''], ''ft'' \<mapsto> [''N'', ''dx'', ''r0'', ''psd''],
      ''ft_sh'' \<mapsto> [''N'', ''dx'', ''n_subharm'', ''r0'', ''psd'']]"

fun screen_inputs ::
  "string list \<Rightarrow> (string \<rightharpoonup> 'p arg) \<Rightarrow> (real \<times> pyval) list \<Rightarrow> (py_error + 'p arg list) list" where
  "screen_inputs keys a [] = []"
| "screen_inputs keys a ((dx, r0) # rest) =
     (let a' = [''dx'' \<mapsto> ArgVal (PyFloat dx), ''r0'' \<mapsto> ArgVal r0] ++ a
      in collect (map (dict_get a') keys) # screen_inputs keys a' rest)"

text \<open>\<^verbatim>\<open>self.screen = [self.screen_method(*inputs) for inputs in
  self.__screen_method_input()]\<close>: the inputs of a screen are made, then its method runs,
  then the next inputs are made.\<close>

fun make_screens ::
  "('p arg list \<Rightarrow> 'g \<Rightarrow> py_error + 'scr \<times> 'g) \<Rightarrow> (py_error + 'p arg list) list \<Rightarrow> 'g
     \<Rightarrow> py_error + 'scr list \<times> 'g" where
  "make_screens method [] g = Inr ([], g)"
| "make_screens method (inp # rest) g =
     err_bind inp (\<lambda>args.
     err_bind (method args g) (\<lambda>(scr, g1).
     err_bind (make_screens method rest g1) (\<lambda>(scrs, g2). Inr (scr # scrs, g2))))"

text \<open>
  \<^verbatim>\<open>
  def __init__(self, n_gridpts, z, dx_0, dx_n, **settings):
      prop_frac = z / z[-1]
      self.n_gridpts = n_gridpts
      self.screen_locations = z
      self.dx_sampling = (dx_n - dx_0) * prop_frac + dx_0
      self.n_scr = len(z)
      self.screen_method_name = settings['screen_method_name']
      self.screen_method = screen_method_dict[self.screen_method_name]
      self.settings = {k: settings[k]
                       for k in settings.keys() - {'screen_method_name', 'psd_name'}}
      try: ... except KeyError: self.psd = None
      if self.screen_method_name == 'vacuum':
          self.settings['r0'] = float('inf')
      self.r0s = [self.settings['r0'] / self.n_scr**(-3 / 5)] * self.n_scr
      self.screen = [self.screen_method(*inputs)
                     for inputs in self.__screen_method_input()]
  \<close>
\<close>

definition Atmos_init ::
  "'p psd_module \<Rightarrow> ('p, 'scr, 'g) screen_module \<Rightarrow> int \<Rightarrow> real list \<Rightarrow> real \<Rightarrow> real
     \<Rightarrow> (string \<rightharpoonup> pyval) \<Rightarrow> 'g \<Rightarrow> py_error + ('p, 'scr) atmos \<times> 'g" where
  "Atmos_init psd_mod scr_mod the_n_gridpts z dx_0 dx_n all_settings g =
     err_bind (py_index z (- 1)) (\<lambda>z_last.
       let prop_frac = map (\<lambda>v. v / z_last) z;
           the_dx_sampling = map (\<lambda>f. (dx_n - dx_0) * f + dx_0) prop_frac;
           the_n_scr = length z in
       err_bind (dict_get all_settings ''screen_method_name'') (\<lambda>method_name.
       err_bind (dict_get_val (screen_method_dict scr_mod) method_name) (\<lambda>method.
         let settings1 = all_settings |` (- {''screen_method_name'', ''psd_name''}) in
         err_bind (try_psd psd_mod all_settings settings1) (\<lambda>(the_psd_name, the_psd).
           let settings2 = (if method_name = PyStr ''vacuum'' then settings1(''r0'' \<mapsto> PyInf)
                            else settings1) in
           err_bind (dict_get settings2 ''r0'') (\<lambda>r0.
           err_bind (r0_share r0 the_n_scr) (\<lambda>r0s1.
             let the_r0s = replicate the_n_scr r0s1 in
             err_bind (dict_get_val phase_screen_input_dict method_name) (\<lambda>keys.
               let a = [''N'' \<mapsto> ArgVal (PyInt the_n_gridpts), ''psd'' \<mapsto> ArgPsd the_psd]
                         ++ (map_option ArgVal \<circ> settings2) in
               err_bind (make_screens method (screen_inputs keys a (zip the_dx_sampling the_r0s)) g)
                 (\<lambda>(screens, g').
                   Inr (\<lparr> n_gridpts = the_n_gridpts, screen_locations = z,
                           dx_sampling = the_dx_sampling, n_scr = the_n_scr,
                           screen_method_name = method_name, settings = settings2,
                           psd_name = the_psd_name, psd = the_psd, r0s = the_r0s,
                           screen = screens \<rparr>, g')))))))))"

text \<open>Modelled from the spec: \<^verbatim>\<open>phase_screen.vacuum\<close> is not among the sources. Section 8 of
  the specification: the method \<^verbatim>\<open>vacuum\<close> yields all-ones screens. (The method
  \<^verbatim>\<open>Atmos.vacuum\<close> of the source returns \<^verbatim>\<open>np.ones([n_gridpts, n_gridpts])\<close> as well.)
  The other two methods stay parameters.\<close>

definition phase_screen_vacuum :: "'p arg list \<Rightarrow> 'g \<Rightarrow> py_error + real array2 \<times> 'g" where
  "phase_screen_vacuum args g =
     (case args of
        [ArgVal (PyInt N)] \<Rightarrow>
          if N < 0 then Inl ValueError else Inr (replicate (nat N) (replicate (nat N) 1), g)
      | _ \<Rightarrow> Inl TypeError)"

definition phase_screen_module ::
  "('p arg list \<Rightarrow> 'g \<Rightarrow> py_error + real array2 \<times> 'g) \<Rightarrow> ('p arg list \<Rightarrow> 'g \<Rightarrow> py_error + real array2 \<times> 'g)
     \<Rightarrow> ('p, real array2, 'g) screen_module" where
  "phase_screen_module ft ft_sh name =
     (if name = ''vacuum'' then phase_screen_vacuum else if name = ''ft'' then ft else ft_sh)"

section \<open>Properties\<close>

subsection \<open>Shapes and the constructor\<close>

lemma linspace_length: "length (linspace a b n) = n"
  by (simp add: linspace_def)

lemma grid_axis_length: "length (grid_axis N p) = nat N"
  by (simp add: grid_axis_def linspace_length)

lemma shape_meshgrid_X: "map length (meshgrid_X x y) = replicate (length y) (length x)"
  by (simp add: meshgrid_X_def map_replicate_const)

lemma shape_meshgrid_Y: "map length (meshgrid_Y x y) = replicate (length y) (length x)"
  by (simp add: meshgrid_Y_def map_replicate_const comp_def)

lemma shape_length:
  assumes "map length A = replicate m n"
  shows "length A = m" and "i < m \<Longrightarrow> length (A ! i) = n"
proof -
  show l: "length A = m"
    using assms by (metis length_map length_replicate)
  show "length (A ! i) = n" if "i < m"
    using assms that l by (metis nth_map nth_replicate)
qed

lemma shape_map2:
  assumes "map length A = replicate m n" and "map length B = replicate m n"
  shows "map length (map2 (map2 f) A B) = replicate m n"
  using shape_length[OF assms(1)] shape_length[OF assms(2)]
  by (auto simp: list_eq_iff_nth_eq)

lemma shape_amap: "map length (amap f A) = map length A"
  by (simp add: amap_def comp_def)

lemma radius_shape:
  "map length (radius (meshgrid_X (grid_axis N p) (grid_axis N p))
                      (meshgrid_Y (grid_axis N p) (grid_axis N p)))
     = replicate (nat N) (nat N)"
  unfolding radius_def
  by (rule shape_map2) (simp_all add: shape_meshgrid_X shape_meshgrid_Y grid_axis_length)

lemma PropLocs_length: "length (PropLocs_of n dz) = nat (n + 3)"
proof -
  have "length (foldl (PropLocs_step dz) xs zs) = length xs" for xs zs
    by (induction zs arbitrary: xs) (simp_all add: PropLocs_step_def)
  then show ?thesis by (simp add: PropLocs_of_def)
qed

lemma dzProps_length: "length (dzProps_of n L) = nat (n + 2)"
  by (simp add: dzProps_of_def slice_assign_def Let_def)

lemma init_fields:
  assumes "init c = Inr s"
  shows "self_N s = cfg_N c" and "0 \<le> cfg_N c" and "self_NumScr s = cfg_NumScr c"
    and "self_r1 s = radius (meshgrid_X (grid_axis (cfg_N c) (cfg_dx c)) (grid_axis (cfg_N c) (cfg_dx c)))
                            (meshgrid_Y (grid_axis (cfg_N c) (cfg_dx c)) (grid_axis (cfg_N c) (cfg_dx c)))"
    and "self_PropLocs s = PropLocs_of (cfg_NumScr c) (dzProps_of (cfg_NumScr c) (cfg_PropDist c))"
    and "self_dzProps s = dzProps_of (cfg_NumScr c) (cfg_PropDist c)"
  using assms
  by (auto simp: init_def err_bind_def Let_def split: sum.splits if_splits)

lemma py_pow_pos: "0 < x \<Longrightarrow> py_pow x y = Inr (if y = 0 then 1 else x powr y)"
  by (simp add: py_pow_def)

lemma py_pow_Inr: "0 < x \<Longrightarrow> \<exists>v. py_pow x y = Inr v"
  by (simp add: py_pow_def)

lemma derived_values_Inr:
  assumes "k \<noteq> 0" and "0 < Cn2" and "0 < L" and "0 < n" and "0 < L0"
  shows "\<exists>d. derived_values k Cn2 L n L0 = Inr d"
proof -
  have k2: "0 < k\<^sup>2" using assms(1) by simp
  have b1: "0 < 0.423 * k\<^sup>2 * Cn2 * L" using k2 assms by simp
  have b2: "0 < 0.423 * k\<^sup>2 * Cn2 * (L / of_int n)" using k2 assms by simp
  have b3: "0 < 1.46 * Cn2 * k\<^sup>2 * L" using k2 assms by simp
  obtain v1 where v1: "py_pow (0.423 * k\<^sup>2 * Cn2 * L) (- 3.0 / 5.0) = Inr v1"
    using py_pow_Inr[OF b1] by blast
  obtain v2 where v2: "py_pow (0.423 * k\<^sup>2 * Cn2 * (L / of_int n)) (- 3.0 / 5.0) = Inr v2"
    using py_pow_Inr[OF b2] by blast
  obtain v3 where v3: "py_pow L (11.0 / 6.0) = Inr v3"
    using py_pow_Inr[OF assms(3)] by blast
  obtain v4 where v4: "py_pow L0 (- 5.0 / 3.0) = Inr v4"
    using py_pow_Inr[OF assms(5)] by blast
  obtain v5 where v5: "py_pow (1.46 * Cn2 * k\<^sup>2 * L) (- 5.0 / 3.0) = Inr v5"
    using py_pow_Inr[OF b3] by blast
  show ?thesis
    unfolding derived_values_def err_bind_def v1 v2 v3 v4 v5 by (simp add: Let_def)
qed

lemma init_Inr:
  assumes "cfg_wvl c \<noteq> 0" and "0 \<le> cfg_N c" and "cfg_simOption c = 0"
    and "1 \<le> cfg_NumScr c" and "0 < cfg_Cn2 c" and "0 < cfg_PropDist c"
  shows "\<exists>s. init c = Inr s"
proof -
  have k: "2 * pi / cfg_wvl c \<noteq> 0" using assms(1) by simp
  obtain d where d: "derived_values (2 * pi / cfg_wvl c) (cfg_Cn2 c) (cfg_PropDist c)
                       (cfg_NumScr c) (1 * 10 ^ 3) = Inr d"
    using derived_values_Inr[OF k assms(5) assms(6), of "cfg_NumScr c" "1 * 10 ^ 3"] assms(4)
    by auto
  have idx: "py_index (PropLocs_of (cfg_NumScr c) dz) (cfg_NumScr c + 1)
               = Inr (PropLocs_of (cfg_NumScr c) dz ! nat (cfg_NumScr c + 1))" for dz
    using assms(4) by (simp add: py_index_def PropLocs_length Let_def)
  have kk: "py_div (2 * pi) (cfg_wvl c) = Inr (2 * pi / cfg_wvl c)"
    using assms(1) by (simp add: py_div_def)
  show ?thesis
    unfolding init_def Let_def kk err_bind_def
    using assms(2-4) d
    by (simp add: make_source_def ScrnLoc_of_def idx err_bind_def Let_def del: One_nat_def)
qed

subsection \<open>Geometry\<close>

lemma dzProps_nth:
  assumes "2 \<le> n" and "i < nat (n + 2)"
  shows "dzProps_of n L ! i =
           (if i < 2 \<or> nat n \<le> i then L / (2 * of_int n) else L / of_int n)"
  using assms by (auto simp: dzProps_of_def slice_assign_def slice_index_def Let_def)

lemma dzProps_sum:
  assumes "2 \<le> n"
  shows "sum_list (dzProps_of n L) = L"
proof -
  define m where "m = nat n"
  define d where "d = L / of_int n"
  have m: "2 \<le> m" "nat (n + 2) = m + 2" "real m = of_int n"
    using assms by (auto simp: m_def)
  have nth: "dzProps_of n L ! i = (if i < 2 \<or> m \<le> i then d / 2 else d)" if "i < m + 2" for i
    using dzProps_nth[OF assms] m that by (simp add: d_def m_def)
  have "sum_list (dzProps_of n L) = (\<Sum>i = 0..<m + 2. dzProps_of n L ! i)"
    by (simp add: sum_list_sum_nth dzProps_length m)
  also have "\<dots> = (\<Sum>i = 0..<m + 2. if i < 2 \<or> m \<le> i then d / 2 else d)"
    by (rule sum.cong) (simp_all add: nth)
  also have "{0..<m + 2} = {0..<2} \<union> ({2..<m} \<union> {m..<m + 2})"
    using m by auto
  also have "(\<Sum>i\<in>{0..<2} \<union> ({2..<m} \<union> {m..<m + 2}). if i < 2 \<or> m \<le> i then d / 2 else d)
      = (\<Sum>i\<in>{0..<2}. if i < 2 \<or> m \<le> i then d / 2 else d)
        + ((\<Sum>i\<in>{2..<m}. if i < 2 \<or> m \<le> i then d / 2 else d)
        + (\<Sum>i\<in>{m..<m + 2}. if i < 2 \<or> m \<le> i then d / 2 else d))"
    using m by (subst sum.union_disjoint; (subst sum.union_disjoint)?; auto)
  also have "(\<Sum>i\<in>{0..<2}. if i < 2 \<or> m \<le> i then d / 2 else d) = (\<Sum>i\<in>{0..<2::nat}. d / 2)"
    by (rule sum.cong) auto
  also have "(\<Sum>i\<in>{2..<m}. if i < 2 \<or> m \<le> i then d / 2 else d) = (\<Sum>i\<in>{2..<m}. d)"
    by (rule sum.cong) auto
  also have "(\<Sum>i\<in>{m..<m + 2}. if i < 2 \<or> m \<le> i then d / 2 else d) = (\<Sum>i\<in>{m..<m + 2}. d / 2)"
    by (rule sum.cong) auto
  also have "(\<Sum>i\<in>{0..<2::nat}. d / 2) + ((\<Sum>i\<in>{2..<m}. d) + (\<Sum>i\<in>{m..<m + 2}. d / 2)) = real m * d"
    using m by (simp add: of_nat_diff algebra_simps)
  also have "\<dots> = L"
    using assms m by (simp add: d_def)
  finally show ?thesis .
qed

text \<open>
  Claim C4, as the code has it. The planner lays out \<open>NumScr + 2\<close> segments. For
  \<open>NumScr \<ge> 2\<close> they sum to the path length \<open>L\<close>; the first two and the last two segments
  (the slices \<^verbatim>\<open>[0:2]\<close> and \<^verbatim>\<open>[NumScr:NumScr+2]\<close>) have the half length \<open>L / (2 NumScr)\<close>, and
  every other segment has the full length \<open>L / NumScr\<close>.
\<close>

theorem dzProps_segments:
  assumes "2 \<le> NumScr"
  shows "length (dzProps_of NumScr L) = nat (NumScr + 2)
       \<and> sum_list (dzProps_of NumScr L) = L
       \<and> (\<forall>i < nat (NumScr + 2). dzProps_of NumScr L ! i =
            (if i < 2 \<or> nat NumScr \<le> i then L / (2 * of_int NumScr) else L / of_int NumScr))"
  using assms dzProps_length dzProps_sum dzProps_nth by simp

theorem dzProps_segments_witness:
  "(2::int) \<le> 10 \<and> length (dzProps_of 10 10000) = 12 \<and> sum_list (dzProps_of 10 10000) = 10000
     \<and> dzProps_of 10 10000 ! 0 = 500 \<and> dzProps_of 10 10000 ! 1 = 500
     \<and> dzProps_of 10 10000 ! 2 = 1000 \<and> dzProps_of 10 10000 ! 9 = 1000
     \<and> dzProps_of 10 10000 ! 10 = 500 \<and> dzProps_of 10 10000 ! 11 = 500"
  using dzProps_segments [of 10 10000] by simp

text \<open>
  Claim C4 as stated fails twice. For \<open>NumScr = 1\<close> the two slices overlap: all three
  segments are half segments and sum to \<open>3/2\<close> of the path length. For \<open>NumScr = 10\<close> the
  second segment, which adjoins neither the source nor the receiver, has the half length.
\<close>

theorem dzProps_segments_counterexample:
  "dzProps_of 1 1000 = [500, 500, 500] \<and> sum_list (dzProps_of 1 1000) \<noteq> 1000
     \<and> dzProps_of 10 10000 ! 1 = 10000 / (2 * 10) \<and> dzProps_of 10 10000 ! 1 \<noteq> 10000 / 10"
  by code_simp

text \<open>
  Claim C5 at \<open>NumScr = 1\<close>, \<open>dx = 0.04\<close>, \<open>Rdx = 0.01\<close>, \<open>PropDist = 1000\<close>: the planes lie at
  0, 500, 1000 and 1500, past the receiver, the pitch interpolated at the last one is
  negative, and so is the last sampling ratio.
\<close>

theorem SamplingRatio_NumScr_1:
  "PropLocs_of 1 (dzProps_of 1 1000) = [0, 500, 1000, 1500]
     \<and> SamplingRatio_of (PropSampling_of 0.04 0.01
          (FracPropDist_of (PropLocs_of 1 (dzProps_of 1 1000)) 1000)) = [5 / 8, 2 / 5, - 1 / 2]"
  by code_simp

subsection \<open>Propagation\<close>

lemma amul_ones:
  assumes "map length U = replicate n n"
  shows "amul U (replicate n (replicate n 1)) = Inr U"
proof -
  note l = shape_length(1)[OF assms] and li = shape_length(2)[OF assms]
  have "map2 (map2 (\<lambda>a b. a * b)) U (replicate n (replicate n (1::complex))) = U"
    by (auto simp: list_eq_iff_nth_eq l li)
  then show ?thesis
    using assms by (simp add: amul_def azip_def same_shape_def map_replicate_const)
qed

lemma amul_shape: "amul A B = Inr C \<Longrightarrow> map length C = map length B"
  by (auto simp: amul_def azip_def same_shape_def list_eq_iff_nth_eq split: if_splits)

lemma amul_same_shape: "amul A B = Inr C \<Longrightarrow> map length A = map length B"
  by (auto simp: amul_def azip_def same_shape_def split: if_splits)

lemma for_loop_cong:
  assumes "\<And>x i. i \<in> set is \<Longrightarrow> f x i = g x i"
  shows "for_loop f x is = for_loop g x is"
  using assms by (induction "is" arbitrary: x) (simp_all add: err_bind_def split: sum.splits)

lemma screen_factor_zero:
  assumes "0 \<le> k" "k < int m"
  shows "screen_factor (replicate m (replicate n (replicate n 0))) k = Inr (replicate n (replicate n 1))"
  using assms by (simp add: screen_factor_def py_index_def err_bind_def amap_def Let_def)

lemma step_eq:
  assumes sq: "map length (self_r1 s) = replicate n n" and k: "1 \<le> p" "p \<le> int m"
  shows "SplitStepProp_step s (replicate m (replicate n (replicate n 0))) U p = VacuumProp_step s U p"
proof (cases "diffract s U p")
  case (Inl e)
  then show ?thesis by (simp add: SplitStepProp_step_def VacuumProp_step_def err_bind_def)
next
  case (Inr V)
  show ?thesis
  proof (cases "amul V (MakeSGB s)")
    case (Inl e)
    then show ?thesis using Inr by (simp add: SplitStepProp_step_def VacuumProp_step_def err_bind_def)
  next
    case (Inr W)
    have "map length W = replicate n n"
      using amul_shape[OF Inr] sq by (simp add: MakeSGB_def Let_def shape_amap)
    then have "amul W (replicate n (replicate n 1)) = Inr W" by (rule amul_ones)
    moreover have "screen_factor (replicate m (replicate n (replicate n 0))) (p - 1) = Inr (replicate n (replicate n 1))"
      using k by (intro screen_factor_zero) auto
    ultimately show ?thesis using Inr \<open>diffract s U p = Inr V\<close>
      by (simp add: SplitStepProp_step_def VacuumProp_step_def err_bind_def)
  qed
qed

text \<open>
  Claim C9. For every object the constructor returns with at least one screen,
  \<^verbatim>\<open>SplitStepProp\<close> on the stack of \<open>NumScr\<close> all-zero phase screens of shape \<open>N \<times> N\<close> returns what
  \<^verbatim>\<open>VacuumProp\<close> returns: the same field, or the same exception.
\<close>

theorem SplitStepProp_zero_phase_is_VacuumProp:
  assumes "init c = Inr s" and "1 \<le> cfg_NumScr c"
  shows "SplitStepProp s Uin
           (replicate (nat (self_NumScr s))
              (replicate (nat (self_N s)) (replicate (nat (self_N s)) 0)))
         = VacuumProp s"
proof -
  define n where "n = nat (self_N s)"
  define m where "m = nat (self_NumScr s)"
  let ?stack = "replicate m (replicate n (replicate n (0::complex)))"
  have sq: "map length (self_r1 s) = replicate n n"
    using init_fields[OF assms(1)] radius_shape by (simp add: n_def)
  have m: "1 \<le> m" "int m = self_NumScr s" using init_fields[OF assms(1)] assms(2) by (auto simp: m_def)
  have planes: "set (planes s) = {1..int m}"
    using init_fields[OF assms(1)] assms(2) m by (auto simp: planes_def PropLocs_length)
  have loop: "for_loop (SplitStepProp_step s ?stack) U (planes s) = for_loop (VacuumProp_step s) U (planes s)" for U
    by (rule for_loop_cong) (use planes in \<open>auto intro!: step_eq[OF sq]\<close>)
  have sf0: "screen_factor ?stack 0 = Inr (replicate n (replicate n 1))"
    using m by (intro screen_factor_zero) auto
  show ?thesis
  proof (cases "quad_P0 s")
    case (Inl e)
    then show ?thesis by (simp add: SplitStepProp_def VacuumProp_def err_bind_def)
  next
    case P0: (Inr P0)
    show ?thesis
    proof (cases "self_Source s")
      case None
      then show ?thesis using P0 by (simp add: SplitStepProp_def VacuumProp_def err_bind_def)
    next
      case (Some Source)
      show ?thesis
      proof (cases "amul P0 Source")
        case (Inl e)
        then show ?thesis using P0 Some by (simp add: SplitStepProp_def VacuumProp_def err_bind_def)
      next
        case (Inr U)
        have "map length P0 = replicate n n"
          using P0 sq by (auto simp: quad_P0_def err_bind_def shape_amap split: sum.splits)
        then have "map length U = replicate n n"
          using amul_shape[OF Inr] amul_same_shape[OF Inr] by simp
        then have "amul U (replicate n (replicate n 1)) = Inr U" by (rule amul_ones)
        then show ?thesis using P0 Some Inr sf0 loop
          by (simp add: SplitStepProp_def VacuumProp_def err_bind_def m_def n_def)
      qed
    qed
  qed
qed


theorem SplitStepProp_zero_phase_is_VacuumProp_witness:
  "\<exists>s. init default_config = Inr s \<and> 1 \<le> cfg_NumScr default_config
     \<and> SplitStepProp s (self_Source s)
           (replicate (nat (self_NumScr s))
              (replicate (nat (self_N s)) (replicate (nat (self_N s)) 0)))
         = VacuumProp s"
proof -
  have n: "1 \<le> cfg_NumScr default_config"
    by (simp add: default_config_def)
  obtain s where s: "init default_config = Inr s"
    using init_Inr [of default_config] by (auto simp: default_config_def)
  show ?thesis
    using s n SplitStepProp_zero_phase_is_VacuumProp [OF s n] by blast
qed

text \<open>
  Claim C2. \<^verbatim>\<open>SplitStepProp\<close> assigns \<^verbatim>\<open>Uin = P0 * self.Source * ...\<close> before it has read its
  parameter \<^verbatim>\<open>Uin\<close>: two calls that differ only in the field they are given return the same.
\<close>

theorem SplitStepProp_ignores_Uin: "SplitStepProp s Uin stack = SplitStepProp s Uin' stack"
  by (simp add: SplitStepProp_def)


subsection \<open>Turbulence strength\<close>

lemma SetCn2Rytov_fields:
  assumes "SetCn2Rytov s u = Inr s'"
  shows "self_rytovNum s' = u" and "self_rytov s' = Some (u\<^sup>2)"
    and "self_rytovVar s' = self_rytovVar s"
    and "self_k s' = self_k s" and "self_PropDist s' = self_PropDist s"
    and "self_NumScr s' = self_NumScr s" and "self_L0 s' = self_L0 s"
  using assms
  by (auto simp: SetCn2Rytov_def err_bind_def Let_def split: sum.splits if_splits)

theorem SetCn2Rytov_rederives:
  assumes "SetCn2Rytov s u = Inr s'"
  shows "\<exists>d. derived_values (self_k s') (self_Cn2 s') (self_PropDist s') (self_NumScr s') (self_L0 s') = Inr d
           \<and> self_r0 s' = d_r0 d \<and> self_r0scrn s' = d_r0scrn d
           \<and> self_log_ampl_var s' = d_log_ampl_var d \<and> self_phase_var s' = d_phase_var d
           \<and> self_rho_0 s' = d_rho_0 d"
  using assms
  by (auto simp: SetCn2Rytov_def derived_values_def err_bind_def Let_def split: sum.splits if_splits)

lemma err_bind_Inr: "err_bind (Inr v) f = f v"
  by (simp add: err_bind_def)

lemma SetCn2Rytov_Inr:
  assumes "0 < self_k s" and "0 < self_PropDist s" and "u \<noteq> 0" and "0 < self_NumScr s" and "0 < self_L0 s"
  shows "\<exists>s'. SetCn2Rytov s u = Inr s'"
  using assms
  by (simp add: SetCn2Rytov_def Let_def py_pow_pos py_div_def err_bind_Inr)

lemma init_k:
  assumes "init c = Inr s"
  shows "self_k s = 2 * pi / cfg_wvl c"
  using assms
  by (auto simp: init_def py_div_def err_bind_def Let_def split: sum.splits if_splits)

lemma init_derived:
  assumes "init c = Inr s"
  shows "self_PropDist s = cfg_PropDist c" "self_L0 s = 1000"
    "self_rytovVar s = (sqrt (1.23 * cfg_Cn2 c * self_k s * cfg_PropDist c))\<^sup>2"
  using assms
  by (auto simp: init_def derived_values_def err_bind_def Let_def split: sum.splits if_splits)

text \<open>
  Claim C8 at the default configuration and \<open>UserRytov = 1\<close>. \<^verbatim>\<open>SetCn2Rytov\<close> stores the
  square of the new Rytov number in a new attribute \<^verbatim>\<open>self.rytov\<close>; the Rytov variance
  \<^verbatim>\<open>self.rytovVar\<close> of the constructor keeps its value from before the call, which is below
  the square of the new Rytov number.
\<close>

theorem SetCn2Rytov_rytovVar_stale:
  "\<exists>s s'. init default_config = Inr s \<and> SetCn2Rytov s 1 = Inr s'
      \<and> self_rytovNum s' = 1 \<and> self_rytov s' = Some 1
      \<and> self_rytovVar s' = self_rytovVar s \<and> self_rytovVar s' < (self_rytovNum s')\<^sup>2"
proof -
  obtain s where s: "init default_config = Inr s"
    using init_Inr [of default_config] by (auto simp: default_config_def)
  note f = init_fields[OF s] init_derived[OF s]
  have kv: "self_k s = 2 * pi / (1 / 10 ^ 6)"
    using init_k[OF s] by (simp add: default_config_def)
  have k: "0 < self_k s" by (simp add: kv)
  obtain s' where s': "SetCn2Rytov s 1 = Inr s'"
    using SetCn2Rytov_Inr[of s 1] k f by (auto simp: default_config_def)
  note g = SetCn2Rytov_fields[OF s']
  have "self_rytovVar s = 1.23 * (1 / 10 ^ 16) * (2 * pi / (1 / 10 ^ 6)) * (10 * 10 ^ 3)"
    by (simp add: f kv default_config_def)
  also have "\<dots> < 1" using pi_less_4 by simp
  finally have "self_rytovVar s < 1" .
  then show ?thesis using s s' g by auto
qed


text \<open>
  The other derived values after \<^verbatim>\<open>SetCn2Rytov\<close> at the default configuration: they are the
  values the constructor's formulas give for the new \<^verbatim>\<open>Cn2\<close>.
\<close>

theorem SetCn2Rytov_rederives_witness:
  "\<exists>s s' d. init default_config = Inr s \<and> SetCn2Rytov s 1 = Inr s'
      \<and> derived_values (self_k s') (self_Cn2 s') (self_PropDist s') (self_NumScr s') (self_L0 s') = Inr d
      \<and> self_r0 s' = d_r0 d \<and> self_r0scrn s' = d_r0scrn d
      \<and> self_log_ampl_var s' = d_log_ampl_var d \<and> self_phase_var s' = d_phase_var d
      \<and> self_rho_0 s' = d_rho_0 d"
proof -
  obtain s where s: "init default_config = Inr s"
    using init_Inr [of default_config] by (auto simp: default_config_def)
  have kv: "self_k s = 2 * pi / (1 / 10 ^ 6)"
    using init_k[OF s] by (simp add: default_config_def)
  have k: "0 < self_k s" by (simp add: kv)
  obtain s' where s': "SetCn2Rytov s 1 = Inr s'"
    using SetCn2Rytov_Inr[of s 1] k init_fields[OF s] init_derived[OF s]
    by (auto simp: default_config_def)
  show ?thesis
    using s s' SetCn2Rytov_rederives [OF s'] by blast
qed

subsection \<open>More on the constructor\<close>

lemma init_r0scrn:
  assumes "init c = Inr s" and "0 < cfg_Cn2 c" and "0 < cfg_PropDist c" and "0 < cfg_NumScr c"
  shows "0 < self_r0scrn s"
proof -
  define B where "B = 0.423 * (self_k s)\<^sup>2 * cfg_Cn2 c * (cfg_PropDist c / of_int (cfg_NumScr c))"
  have k: "self_k s \<noteq> 0"
    using assms(1)
    by (auto simp: init_def py_div_def err_bind_def Let_def split: sum.splits if_splits)
  have b: "0 < B"
    using k assms by (simp add: B_def)
  have "py_pow B (- 3.0 / 5.0) = Inr (self_r0scrn s)"
    using assms(1) unfolding B_def
    by (auto simp: init_def derived_values_def err_bind_def Let_def split: sum.splits if_splits)
  then have "self_r0scrn s = B powr (- 3.0 / 5.0)"
    unfolding py_pow_pos[OF b] by simp
  then show ?thesis
    using b by simp
qed

lemma init_more:
  assumes "init c = Inr s"
  shows "self_alpha s = 22" and "self_SideLen s = cfg_SideLen c" and "self_aniso s = cfg_aniso c"
    and "self_l0 s = 1 / 10 ^ 3" and "self_dx s = cfg_dx c" and "self_theta s = 0"
  using assms
  by (auto simp: init_def err_bind_def Let_def split: sum.splits if_splits)

subsection \<open>The sampled spectrum\<close>

lemma sum_list_update_real:
  "j < length xs \<Longrightarrow> sum_list (xs[j := v]) = sum_list xs - xs ! j + (v::real)"
  by (induction xs arbitrary: j) (auto simp: nth_Cons' split: nat.splits)

lemma asum_update:
  assumes "i < length A"
  shows "asum (A[i := r]) = asum A - sum_list (A ! i) + sum_list (r::real list)"
  using assms unfolding asum_def
  by (induction A arbitrary: i) (auto split: nat.splits)

lemma asum_aset:
  assumes "aset A i j v = Inr B"
  shows "asum B = asum A - A ! i ! j + (v::real)" and "B ! i ! j = v"
    and "B = A[i := (A ! i)[j := v]]" and "i < length A" and "j < length (A ! i)"
  using assms by (auto simp: aset_def asum_update sum_list_update_real split: if_splits)

lemma sum_list_scale: "sum_list (map (\<lambda>v. c * v) xs) = c * sum_list (xs::real list)"
  by (induction xs) (simp_all add: algebra_simps)

lemma asum_scale: "asum (amap (\<lambda>v. c * v) A) = c * asum (A::real array2)"
  unfolding asum_def amap_def
  by (induction A) (simp_all add: sum_list_scale distrib_left)

lemma PhaseScreen_PSD_stages:
  assumes "PhaseScreen_PSD gamma s = Inr p"
  shows "psd_tot_NOK p = asum (PSD_raw p)" and "psd_tot_OK p = asum (PSD_ref p)"
    and "PSD_normalized p = amap (\<lambda>v. (psd_tot_OK p / psd_tot_NOK p) * v) (PSD_raw p)"
    and "aset (PSD_normalized p) (nat (self_N s div 2)) (nat (self_N s div 2)) 0 = Inr (PSD_final p)"
  using assms
  by (auto simp: PhaseScreen_PSD_def err_bind_def Let_def split: sum.splits prod.splits)

lemma PhaseScreen_PSD_profiles:
  assumes "PhaseScreen_PSD gamma s = Inr p"
  shows "\<exists>del_f pre fm f0 pree fme. f0 \<noteq> 0
           \<and> psd_f p = freq_grid (self_N s) del_f ((pi / 180.0) * self_theta s) (self_aniso s) 1.0
           \<and> PSD_raw p = psd_profile pre fm f0 (self_alpha s / 6.0) (psd_f p)
           \<and> PSD_ref p = psd_profile pree fme f0 (22 / 6.0) (psd_f p)"
proof -
  from assms obtain del_f cone Bfac fm conee Bface fme f0 pbc pr0 pr0e where
    f0: "py_div 1.0 (self_L0 s) = Inr f0"
    and p: "p = \<lparr> psd_del_f = del_f,
             psd_f = freq_grid (self_N s) del_f ((pi / 180.0) * self_theta s) (self_aniso s) 1.0,
             PSD_raw = psd_profile (cone * Bfac * pbc * pr0) fm f0 (self_alpha s / 6.0)
                         (freq_grid (self_N s) del_f ((pi / 180.0) * self_theta s) (self_aniso s) 1.0),
             PSD_ref = psd_profile (conee * Bface * pr0e) fme f0 (22 / 6.0)
                         (freq_grid (self_N s) del_f ((pi / 180.0) * self_theta s) (self_aniso s) 1.0),
             psd_tot_NOK = psd_tot_NOK p, psd_tot_OK = psd_tot_OK p,
             PSD_normalized = PSD_normalized p, PSD_final = PSD_final p \<rparr>"
    unfolding PhaseScreen_PSD_def Let_def err_bind_def
    by (auto split: sum.splits prod.splits)
  have "f0 \<noteq> 0" using f0 by (auto simp: py_div_def split: if_splits)
  then show ?thesis
    by (subst (1 2 3 4 5) p, simp only: psd_arrays.simps) blast
qed


lemma nth_map2_map2:
  assumes "i < length A" "i < length B" "j < length (A ! i)" "j < length (B ! i)"
  shows "map2 (map2 f) A B ! i ! j = f (A ! i ! j) (B ! i ! j)"
  using assms by simp

lemma freq_grid_shape: "map length (freq_grid N del_f th b c) = replicate (nat N) (nat N)"
  unfolding freq_grid_def Let_def
  by (rule shape_map2) (simp_all add: shape_meshgrid_X shape_meshgrid_Y)

lemma freq_grid_centre:
  assumes "even N" and "0 < N"
  shows "freq_grid N del_f th b c ! nat (N div 2) ! nat (N div 2) = 0"
proof -
  define h where "h = nat (N div 2)"
  define fx0 where "fx0 = map (\<lambda>i. (- of_int N / 2.0 + real i) * del_f) [0..<nat N]"
  have h: "h < nat N" "real h = of_int N / 2"
    using assms by (auto simp: h_def elim!: evenE)
  have z: "fx0 ! h = 0" using h by (simp add: fx0_def)
  have "freq_grid N del_f th b c ! h ! h =
          sqrt ((fx0 ! h * cos th + (- 1 * fx0 ! h) * sin th)\<^sup>2 / b\<^sup>2
                + (- 1.0 * fx0 ! h * sin th + (- 1 * fx0 ! h) * cos th)\<^sup>2 / c\<^sup>2)"
    using h unfolding freq_grid_def Let_def fx0_def[symmetric]
    by (subst nth_map2_map2)
       (simp_all add: meshgrid_X_def meshgrid_Y_def fx0_def Let_def)
  then show ?thesis unfolding z h_def[symmetric] by simp
qed

text \<open>
  Claim C7, as the code has it. Whenever the spectrum is sampled without an exception: the
  centre cell \<open>(N div 2, N div 2)\<close> of the array that filters the noise is zero, and for an even
  \<open>N\<close> this is the cell of frequency zero; the reference total \<^verbatim>\<open>tot_OK\<close> is the grid sum of the
  Kolmogorov spectrum on the same grid; the array right after the normalization, before its
  centre cell is cleared, sums to \<^verbatim>\<open>tot_OK\<close> (when \<^verbatim>\<open>tot_NOK\<close> is not zero); and the array that
  filters the noise sums to that total less the normalized centre cell.
\<close>

theorem PhaseScreen_PSD_normalization:
  assumes "PhaseScreen_PSD gamma s = Inr p"
  shows "PSD_final p ! nat (self_N s div 2) ! nat (self_N s div 2) = 0
       \<and> (even (self_N s) \<longrightarrow> psd_f p ! nat (self_N s div 2) ! nat (self_N s div 2) = 0)
       \<and> psd_tot_OK p = asum (PSD_ref p)
       \<and> (psd_tot_NOK p \<noteq> 0 \<longrightarrow> asum (PSD_normalized p) = psd_tot_OK p)
       \<and> asum (PSD_final p) =
           asum (PSD_normalized p) - PSD_normalized p ! nat (self_N s div 2) ! nat (self_N s div 2)"
proof -
  note st = PhaseScreen_PSD_stages[OF assms]
  note cell = asum_aset[OF st(4)]
  obtain del_f pre fm f0 where
    f: "psd_f p = freq_grid (self_N s) del_f ((pi / 180.0) * self_theta s) (self_aniso s) 1.0"
    and raw: "PSD_raw p = psd_profile pre fm f0 (self_alpha s / 6.0) (psd_f p)"
    using PhaseScreen_PSD_profiles[OF assms] by blast
  have "length (PSD_normalized p) = nat (self_N s)"
    unfolding st(3) raw f psd_profile_def amap_def
    using shape_length(1)[OF freq_grid_shape] by simp
  then have N: "0 < self_N s" using cell(4) by simp
  have dc: "even (self_N s) \<longrightarrow> psd_f p ! nat (self_N s div 2) ! nat (self_N s div 2) = 0"
    unfolding f using freq_grid_centre[OF _ N] by blast
  have norm: "asum (PSD_normalized p) = psd_tot_OK p" if "psd_tot_NOK p \<noteq> 0"
    unfolding st(3) asum_scale using that st(1) by simp
  show ?thesis
    using cell(1,2) dc st(2) norm by simp
qed


lemma psd_consts_ones:
  assumes "2 < na" and "na < 5" and "0 < cos (na * pi / 2)" and "0 < l0"
  shows "\<exists>cone Bfac fm. psd_consts (\<lambda>x. Inr 1) na l0 = Inr (cone, Bfac, fm) \<and> 0 < cone \<and> 0 < Bfac"
proof -
  have "case psd_consts (\<lambda>x. Inr 1) na l0 of
          Inl e \<Rightarrow> False | Inr (cone, Bfac, fm) \<Rightarrow> 0 < cone \<and> 0 < Bfac"
    using assms
    by (simp add: psd_consts_def py_pow_pos py_div_def err_bind_Inr Let_def)
  then show ?thesis
    by (cases "psd_consts (\<lambda>x. Inr 1) na l0") auto
qed

lemma cos_pos_near_2pi:
  assumes "3 * pi / 2 < x" and "x < 5 * pi / 2"
  shows "0 < cos x"
proof -
  have "0 < cos (x - 2 * pi)"
    using assms by (intro cos_gt_zero_pi) simp_all
  then show ?thesis by (simp add: cos_diff)
qed

lemma sum_list_pos_real:
  assumes "xs \<noteq> []" and "\<And>x. x \<in> set xs \<Longrightarrow> 0 < (x::real)"
  shows "0 < sum_list xs"
  using assms
proof (induction xs)
  case Nil
  then show ?case by simp
next
  case (Cons x xs)
  have x: "0 < x" using Cons.prems(2) by simp
  show ?case
  proof (cases "xs = []")
    case True
    then show ?thesis using x by simp
  next
    case False
    have "0 < sum_list xs"
      by (rule Cons.IH[OF False]) (simp add: Cons.prems(2))
    then show ?thesis using x by simp
  qed
qed


lemma asum_pos:
  assumes sh: "map length A = replicate n n" and n: "0 < n"
    and pos: "\<And>i j. i < n \<Longrightarrow> j < n \<Longrightarrow> 0 < (A ! i ! j :: real)"
  shows "0 < asum A"
proof -
  note l = shape_length[OF sh]
  have row: "0 < r" if "r \<in> set (map sum_list A)" for r
  proof -
    from that obtain i where i: "i < n" "r = sum_list (A ! i)"
      using l(1) by (auto simp: in_set_conv_nth)
    have len: "length (A ! i) = n" using i l(2) by simp
    have ne: "A ! i \<noteq> []" using len n by auto
    have "0 < x" if "x \<in> set (A ! i)" for x
    proof -
      from that obtain j where "j < n" "x = A ! i ! j"
        using len by (auto simp: in_set_conv_nth)
      then show ?thesis using pos[OF i(1)] by simp
    qed
    then show ?thesis
      unfolding i(2) by (rule sum_list_pos_real[OF ne])
  qed
  have "map sum_list A \<noteq> []" using l(1) n by auto
  then show ?thesis
    unfolding asum_def using row by (rule sum_list_pos_real)
qed


lemma psd_profile_pos:
  assumes "0 < pre" and "f0 \<noteq> 0" and sh: "map length f = replicate n n" and "0 < n"
  shows "0 < asum (psd_profile pre fm f0 na f)"
proof (rule asum_pos[where n = n])
  show "map length (psd_profile pre fm f0 na f) = replicate n n"
    by (simp add: psd_profile_def shape_amap sh)
  show "0 < n" by fact
  fix i j assume ij: "i < n" "j < n"
  note l = shape_length[OF sh]
  define v where "v = f ! i ! j"
  have "0 < f0\<^sup>2" using assms(2) by simp
  moreover have "0 \<le> v\<^sup>2" by simp
  ultimately have b: "v\<^sup>2 + f0\<^sup>2 \<noteq> 0" by linarith
  have d: "0 < (v\<^sup>2 + f0\<^sup>2) powr (na / 2.0)"
    using b by simp
  have e: "0 < pre * exp (- ((v / fm)\<^sup>2))"
    using assms(1) by simp
  have "psd_profile pre fm f0 na f ! i ! j
          = pre * exp (- ((v / fm)\<^sup>2)) / ((v\<^sup>2 + f0\<^sup>2) powr (na / 2.0))"
    using ij l by (simp add: psd_profile_def amap_def v_def)
  then show "0 < psd_profile pre fm f0 na f ! i ! j"
    using divide_pos_pos[OF e d] by simp
qed

lemma PhaseScreen_PSD_Inr:
  assumes c1: "psd_consts gamma (self_alpha s / 6.0) (self_l0 s) = Inr (cone, Bfac, fm)"
    and p1: "0 < cone" "0 < Bfac"
    and c2: "psd_consts gamma (22 / 6.0) (self_l0 s) = Inr (conee, Bface, fme)"
    and p2: "0 < conee" "0 < Bface"
    and N: "0 < self_N s" and dx: "self_dx s \<noteq> 0" and L0: "self_L0 s \<noteq> 0"
    and b: "0 < self_aniso s" and r0: "0 < self_r0scrn s"
  shows "\<exists>p. PhaseScreen_PSD gamma s = Inr p \<and> 0 < psd_tot_NOK p \<and> 0 < psd_tot_OK p"
proof -
  define del_f where "del_f = 1.0 / (of_int (self_N s) * self_dx s)"
  define f0 where "f0 = 1.0 / self_L0 s"
  define f where "f = freq_grid (self_N s) del_f ((pi / 180.0) * self_theta s) (self_aniso s) 1.0"
  define pbc where "pbc = (if - (self_alpha s / 6.0) / 2.0 = 0 then 1
                           else (self_aniso s * 1.0) powr (- (self_alpha s / 6.0) / 2.0))"
  define pr0 where "pr0 = (if 2.0 - self_alpha s / 6.0 = 0 then 1
                           else self_r0scrn s powr (2.0 - self_alpha s / 6.0))"
  define pr0e where "pr0e = (if 2.0 - 22 / 6.0 = (0::real) then 1
                           else self_r0scrn s powr (2.0 - 22 / 6.0))"
  define raw where "raw = psd_profile (cone * Bfac * pbc * pr0) fm f0 (self_alpha s / 6.0) f"
  define ref where "ref = psd_profile (conee * Bface * pr0e) fme f0 (22 / 6.0) f"
  define nrm where "nrm = amap (\<lambda>v. (asum ref / asum raw) * v) raw"
  define h where "h = nat (self_N s div 2)"
  have e1: "py_div 1.0 (of_int (self_N s) * self_dx s) = Inr del_f"
    using N dx by (simp add: py_div_def del_f_def)
  have e2: "py_div 1.0 (self_L0 s) = Inr f0"
    using L0 by (simp add: py_div_def f0_def)
  have e3: "py_pow (self_aniso s * 1.0) (- (self_alpha s / 6.0) / 2.0) = Inr pbc"
    unfolding pbc_def by (rule py_pow_pos) (use b in simp)
  have e4: "py_pow (self_r0scrn s) (2.0 - self_alpha s / 6.0) = Inr pr0"
    unfolding pr0_def by (rule py_pow_pos) (use r0 in simp)
  have e5: "py_pow (self_r0scrn s) (2.0 - 22 / 6.0) = Inr pr0e"
    unfolding pr0e_def by (rule py_pow_pos) (use r0 in simp)
  have pos: "0 < pbc" "0 < pr0" "0 < pr0e"
    using b r0 by (simp_all add: pbc_def pr0_def pr0e_def)
  have f0: "f0 \<noteq> 0" using L0 by (simp add: f0_def)
  have shf: "map length f = replicate (nat (self_N s)) (nat (self_N s))"
    unfolding f_def by (rule freq_grid_shape)
  have n: "0 < nat (self_N s)" using N by simp
  have traw: "0 < asum raw"
    unfolding raw_def using p1 pos by (intro psd_profile_pos[OF _ f0 shf n]) simp
  have tref: "0 < asum ref"
    unfolding ref_def using p2 pos by (intro psd_profile_pos[OF _ f0 shf n]) simp
  have shn: "map length nrm = replicate (nat (self_N s)) (nat (self_N s))"
    by (simp add: nrm_def raw_def psd_profile_def shape_amap shf)
  have hN: "h < nat (self_N s)" using N by (simp add: h_def)
  have e6: "aset nrm h h 0.0 = Inr (nrm[h := (nrm ! h)[h := 0.0]])"
    using shape_length[OF shn] hN by (simp add: aset_def)
  have "PhaseScreen_PSD gamma s =
          Inr \<lparr> psd_del_f = del_f, psd_f = f, PSD_raw = raw, PSD_ref = ref,
                psd_tot_NOK = asum raw, psd_tot_OK = asum ref,
                PSD_normalized = nrm, PSD_final = nrm[h := (nrm ! h)[h := 0.0]] \<rparr>"
    by (simp only: PhaseScreen_PSD_def Let_def e1 c1 c2 e2 e3 e4 e5 err_bind_Inr prod.case
        f_def[symmetric] raw_def[symmetric] ref_def[symmetric] nrm_def[symmetric]
        h_def[symmetric] e6)
  then show ?thesis using traw tref by (intro exI[of _ "\<lparr> psd_del_f = del_f, psd_f = f, PSD_raw = raw, PSD_ref = ref,
                psd_tot_NOK = asum raw, psd_tot_OK = asum ref,
                PSD_normalized = nrm, PSD_final = nrm[h := (nrm ! h)[h := 0.0]] \<rparr>"]) (simp only: psd_arrays.simps simp_thms)
qed

lemma PhaseScreen_PSD_runs:
  assumes "init default_config = Inr s"
  shows "\<exists>p. PhaseScreen_PSD (\<lambda>x. Inr 1) (s\<lparr>self_alpha := 20\<rparr>) = Inr p
           \<and> 0 < psd_tot_NOK p \<and> 0 < psd_tot_OK p"
proof -
  define s' where "s' = s\<lparr>self_alpha := 20\<rparr>"
  note f = init_fields[OF assms] init_more[OF assms] init_derived[OF assms]
  have a: "self_alpha s' = 20" and l0: "self_l0 s' = 1 / 10 ^ 3"
    and N: "self_N s' = 256" and dx: "self_dx s' = 5 / 10 ^ 3" and L0: "self_L0 s' = 1000"
    and b: "self_aniso s' = 1" and r: "self_r0scrn s' = self_r0scrn s"
    by (simp_all add: s'_def f default_config_def)
  have r0: "0 < self_r0scrn s'"
    unfolding r using init_r0scrn[OF assms] by (simp add: default_config_def)
  have c1: "0 < cos (self_alpha s' / 6.0 * pi / 2)"
    unfolding a by (rule cos_pos_near_2pi) (use pi_gt_zero in simp_all)
  have c2: "0 < cos (22 / 6.0 * pi / 2)"
    by (rule cos_pos_near_2pi) (use pi_gt_zero in simp_all)
  obtain cone Bfac fm where k1:
    "psd_consts (\<lambda>x. Inr 1) (self_alpha s' / 6.0) (self_l0 s') = Inr (cone, Bfac, fm)"
    "0 < cone" "0 < Bfac"
    using psd_consts_ones[OF _ _ c1, of "self_l0 s'"] by (auto simp: a l0)
  obtain conee Bface fme where k2:
    "psd_consts (\<lambda>x. Inr 1) (22 / 6.0) (self_l0 s') = Inr (conee, Bface, fme)"
    "0 < conee" "0 < Bface"
    using psd_consts_ones[OF _ _ c2, of "self_l0 s'"] by (auto simp: l0)
  show ?thesis
    unfolding s'_def[symmetric]
    by (rule PhaseScreen_PSD_Inr[OF k1 k2]) (simp_all add: N dx L0 b r0)
qed

lemma asum_zero: "asum (amap (\<lambda>v. 0) A) = (0::real)"
  unfolding asum_def amap_def by (induction A) simp_all

lemma PhaseScreen_PSD_total_differs:
  assumes run: "PhaseScreen_PSD gamma s = Inr p"
    and nok: "psd_tot_NOK p \<noteq> 0" and ok: "psd_tot_OK p \<noteq> 0"
  shows "asum (PSD_final p) \<noteq> psd_tot_OK p"
proof -
  define h where "h = nat (self_N s div 2)"
  note st = PhaseScreen_PSD_stages[OF run]
  note cell = asum_aset[OF st(4), folded h_def]
  obtain pre fm f0 where f0: "f0 \<noteq> 0"
    and raw: "PSD_raw p = psd_profile pre fm f0 (self_alpha s / 6.0) (psd_f p)"
    using PhaseScreen_PSD_profiles[OF run] by blast
  have pre: "pre \<noteq> 0"
  proof
    assume "pre = 0"
    then have "PSD_raw p = amap (\<lambda>v. 0) (psd_f p)"
      by (simp add: raw psd_profile_def)
    then show False using nok st(1) by (simp add: asum_zero)
  qed
  have hl: "h < length (psd_f p)" "h < length (psd_f p ! h)"
    using cell(4,5) by (simp_all add: st(3) raw psd_profile_def amap_def)
  define v where "v = psd_f p ! h ! h"
  have "0 < f0\<^sup>2" using f0 by simp
  moreover have "0 \<le> v\<^sup>2" by simp
  ultimately have b: "v\<^sup>2 + f0\<^sup>2 \<noteq> 0" by linarith
  have "PSD_raw p ! h ! h = pre * exp (- ((v / fm)\<^sup>2)) / ((v\<^sup>2 + f0\<^sup>2) powr (self_alpha s / 6.0 / 2.0))"
    using hl by (simp add: raw psd_profile_def amap_def v_def)
  then have rawc: "PSD_raw p ! h ! h \<noteq> 0"
    using pre b by simp
  have "PSD_normalized p ! h ! h = (psd_tot_OK p / psd_tot_NOK p) * (PSD_raw p ! h ! h)"
    using hl by (simp add: st(3) raw psd_profile_def amap_def)
  then have nz: "PSD_normalized p ! h ! h \<noteq> 0"
    using rawc nok ok by simp
  have "asum (PSD_normalized p) = psd_tot_OK p"
    unfolding st(3) asum_scale using nok st(1) by simp
  then show ?thesis
    using cell(1) nz by simp
qed

theorem PhaseScreen_PSD_normalization_witness:
  "\<exists>gamma s p. PhaseScreen_PSD gamma s = Inr p \<and> self_N s = 256
      \<and> PSD_final p ! 128 ! 128 = 0 \<and> psd_f p ! 128 ! 128 = 0
      \<and> psd_tot_OK p = asum (PSD_ref p) \<and> asum (PSD_normalized p) = psd_tot_OK p
      \<and> asum (PSD_final p) = asum (PSD_normalized p) - PSD_normalized p ! 128 ! 128"
proof -
  obtain s where s: "init default_config = Inr s"
    using init_Inr [of default_config] by (auto simp: default_config_def)
  obtain p where p: "PhaseScreen_PSD (\<lambda>x. Inr 1) (s\<lparr>self_alpha := 20\<rparr>) = Inr p"
    and t: "0 < psd_tot_NOK p"
    using PhaseScreen_PSD_runs[OF s] by blast
  have N: "self_N (s\<lparr>self_alpha := 20\<rparr>) = 256"
    using init_fields[OF s] by (simp add: default_config_def)
  show ?thesis
    using PhaseScreen_PSD_normalization [OF p] p t N
    by (intro exI[of _ "\<lambda>x. Inr 1"] exI[of _ "s\<lparr>self_alpha := 20\<rparr>"] exI[of _ p]) simp
qed

text \<open>
  Claim C7 as stated fails at the default object with the exponent \<^verbatim>\<open>alpha = 20\<close>: the spectrum
  can be sampled with totals that are not zero, and whatever values \<^verbatim>\<open>math.gamma\<close> returns, when
  the two totals are not zero the array that filters the noise does not sum to the reference
  total, since the centre cell is cleared after the normalization.
\<close>

theorem PhaseScreen_PSD_total_counterexample:
  "\<exists>s. init default_config = Inr s
     \<and> (\<exists>gamma p. PhaseScreen_PSD gamma (s\<lparr>self_alpha := 20\<rparr>) = Inr p
           \<and> psd_tot_NOK p \<noteq> 0 \<and> psd_tot_OK p \<noteq> 0)
     \<and> \<not> (\<exists>gamma p. PhaseScreen_PSD gamma (s\<lparr>self_alpha := 20\<rparr>) = Inr p
           \<and> psd_tot_NOK p \<noteq> 0 \<and> psd_tot_OK p \<noteq> 0
           \<and> asum (PSD_final p) = psd_tot_OK p)"
proof -
  obtain s where s: "init default_config = Inr s"
    using init_Inr [of default_config] by (auto simp: default_config_def)
  obtain p where p: "PhaseScreen_PSD (\<lambda>x. Inr 1) (s\<lparr>self_alpha := 20\<rparr>) = Inr p"
    and t: "0 < psd_tot_NOK p" "0 < psd_tot_OK p"
    using PhaseScreen_PSD_runs[OF s] by blast
  have ex: "\<exists>gamma p. PhaseScreen_PSD gamma (s\<lparr>self_alpha := 20\<rparr>) = Inr p
           \<and> psd_tot_NOK p \<noteq> 0 \<and> psd_tot_OK p \<noteq> 0"
    using p t by (intro exI[of _ "\<lambda>x. Inr 1"] exI[of _ p]) simp
  have no: "\<not> (\<exists>gamma p. PhaseScreen_PSD gamma (s\<lparr>self_alpha := 20\<rparr>) = Inr p
           \<and> psd_tot_NOK p \<noteq> 0 \<and> psd_tot_OK p \<noteq> 0
           \<and> asum (PSD_final p) = psd_tot_OK p)"
    using PhaseScreen_PSD_total_differs by blast
  show ?thesis using s ex no by blast
qed

subsection \<open>The atmosphere\<close>

lemma try_psd_unknown_name:
  assumes "all_settings ''psd_name'' = Some (PyStr name)"
    and "name \<notin> {''kolmogorov'', ''vonKarman'', ''modified_vonKarman'', ''wavepy_og''}"
  shows "try_psd psd_mod all_settings the_settings = Inr (Some (PyStr name), None)"
  using assms
  by (simp add: try_psd_def dict_get_def psd_setup_def dict_get_val_def psd_dict_def
      err_bind_def is_KeyError_def)

lemma Atmos_init_unknown_method:
  "Atmos_init psd_mod scr_mod 4 [0, 500, 1000] 0.01 0.01
     [''screen_method_name'' \<mapsto> PyStr ''bogus'', ''psd_name'' \<mapsto> PyStr ''kolmogorov''] g
   = Inl (KeyError (PyStr ''bogus''))"
  by (simp add: Atmos_init_def py_index_def dict_get_def dict_get_val_def screen_method_dict_def
      err_bind_def Let_def)

text \<open>
  Claim C3 at the settings \<^verbatim>\<open>screen_method_name='vacuum', psd_name='bogus'\<close>, three screen
  locations and a grid of 4 points: the \<open>KeyError\<close> of the unknown spectrum name is caught,
  \<^verbatim>\<open>self.psd\<close> becomes \<^verbatim>\<open>None\<close>, and the constructor goes on to make the three screens and
  returns the object. (An unknown screen method name, by contrast, raises; see
  \<open>Atmos_init_unknown_method\<close>.)
\<close>

theorem Atmos_init_unknown_psd_name:
  "\<exists>a. Atmos_init psd_mod (phase_screen_module ft ft_sh) 4 [0, 500, 1000] 0.01 0.01
          [''screen_method_name'' \<mapsto> PyStr ''vacuum'', ''psd_name'' \<mapsto> PyStr ''bogus''] g
        = Inr (a, g)
      \<and> psd_name a = Some (PyStr ''bogus'') \<and> psd a = None
      \<and> r0s a = [PyInf, PyInf, PyInf]
      \<and> screen a = replicate 3 (replicate 4 (replicate 4 1))"
proof -
  have t: "try_psd psd_mod
             [''screen_method_name'' \<mapsto> PyStr ''vacuum'', ''psd_name'' \<mapsto> PyStr ''bogus''] st
           = Inr (Some (PyStr ''bogus''), None)" for st
    by (rule try_psd_unknown_name) simp_all
  have d: "(3::real) powr (- 3 / 5) \<noteq> 0" by simp
  show ?thesis
    using d
    by (simp add: Atmos_init_def py_index_def dict_get_def dict_get_val_def screen_method_dict_def
        t r0_share_def phase_screen_input_dict_def phase_screen_module_def phase_screen_vacuum_def
        err_bind_def Let_def map_add_def numeral_3_eq_3)
qed


subsection \<open>Propagation of a constant field on the smallest grid\<close>

lemma upt_2: "[0..<2] = [0, Suc 0]"
  by (simp add: upt_rec numeral_2_eq_2)

lemma cis_neg_pi: "cis (- pi) = - 1"
  by (simp add: complex_eq_iff)

lemma cis_neg_2pi: "cis (- (2 * pi)) = 1" "cis (- (pi * 2)) = 1" "cis (pi * 2) = 1"
  by (simp_all add: complex_eq_iff mult.commute)

lemma fft2_const2: "fft2 [[c, c], [c, c]] = Inr [[4 * c, 0], [0, 0]]"
  by (simp add: fft2_def dft_sum_def ncols_def upt_2 Let_def cis_neg_pi cis_neg_2pi)

lemma ifft2_delta2: "ifft2 [[4 * c, 0], [0, 0]] = Inr [[c, c], [c, c]]"
  by (simp add: ifft2_def dft_sum_def ncols_def upt_2 Let_def)

lemma half_3: "Suc (Suc (Suc 0)) div Suc (Suc 0) = Suc 0" "Suc (Suc (Suc 0)) div 2 = Suc 0"
   "(3::nat) div 2 = Suc 0"
  by code_simp+

lemma fftshift_2: "fftshift [[a, b], [c, d]] = [[d, c], [b, a]]"
  by (simp add: fftshift_def half_3)

lemma ifftshift_2: "ifftshift [[a, b], [c, d]] = [[d, c], [b, a]]"
  by (simp add: ifftshift_def)

lemma freq_index_2: "freq_index 2 = [- 1, 0]"
  by (simp add: freq_index_def upto.simps)


lemma diffract_const2:
  assumes N: "self_N s = 2"
    and ps: "py_index (self_PropSampling s) p = Inr ps"
    and dz: "py_index (self_dzProps s) p = Inr dz"
    and sr: "py_index (self_SamplingRatioBetweenScreen s) p = Inr sr"
  shows "diffract s [[c, c], [c, c]] p = Inr [[c, c], [c, c]]"
proof -
  have sh: "fftshift [[0, 0], [0, 4 * c]] = [[4 * c, 0], [0, 0::complex]]"
    "ifftshift [[0, 0], [0, 4 * c]] = [[4 * c, 0], [0, 0::complex]]"
    by (rule fftshift_2 ifftshift_2)+
  show ?thesis
    unfolding diffract_def Let_def N freq_index_2 fftshift_2 fft2_const2 err_bind_Inr ps dz sr
    by (simp add: meshgrid_X_def meshgrid_Y_def amap_def amul_def azip_def same_shape_def
        err_bind_Inr ifftshift_2 ifft2_delta2)
qed


lemma init_geometry:
  assumes "init c = Inr s"
  shows "cfg_simOption c = 0 \<Longrightarrow> self_Source s = Some (PlaneSource (cfg_N c))"
    and "self_rR s = radius (meshgrid_X (grid_axis (cfg_N c) (cfg_Rdx c)) (grid_axis (cfg_N c) (cfg_Rdx c)))
                            (meshgrid_Y (grid_axis (cfg_N c) (cfg_Rdx c)) (grid_axis (cfg_N c) (cfg_Rdx c)))"
    and "self_PropSampling s = PropSampling_of (cfg_dx c) (cfg_Rdx c)
           (FracPropDist_of (PropLocs_of (cfg_NumScr c) (dzProps_of (cfg_NumScr c) (cfg_PropDist c)))
              (cfg_PropDist c))"
    and "self_SamplingRatioBetweenScreen s = SamplingRatio_of (self_PropSampling s)"
  using assms
  by (auto simp: init_def make_source_def err_bind_def Let_def split: sum.splits if_splits)

lemma radius_2: "\<exists>r00 r01 r10.
   radius (meshgrid_X (grid_axis 2 p) (grid_axis 2 p)) (meshgrid_Y (grid_axis 2 p) (grid_axis 2 p))
     = [[r00, r01], [r10, 0]]"
  by (simp add: radius_def meshgrid_X_def meshgrid_Y_def grid_axis_def linspace_def upt_2)

lemma small_lists:
  "dzProps_of 1 (10 * 10 ^ 3) = [5000, 5000, 5000]"
  "PropLocs_of 1 (dzProps_of 1 (10 * 10 ^ 3)) = [0, 5000, 10000, 15000]"
  "PropSampling_of (5 / 10 ^ 3) (5 / 10 ^ 3)
     (FracPropDist_of (PropLocs_of 1 (dzProps_of 1 (10 * 10 ^ 3))) (10 * 10 ^ 3))
     = [5 / 10 ^ 3, 5 / 10 ^ 3, 5 / 10 ^ 3, 5 / 10 ^ 3]"
  "SamplingRatio_of [5 / 10 ^ 3, 5 / 10 ^ 3, 5 / 10 ^ 3, 5 / 10 ^ 3] = [1, 1, 1]"
  by code_simp+


lemma small_object:
  assumes "init (default_config\<lparr>cfg_N := 2, cfg_NumScr := 1\<rparr>) = Inr s"
  shows "self_N s = 2" and "self_Source s = Some [[1, 1], [1, 1]]"
    and "\<exists>r00 r01 r10. self_r1 s = [[r00, r01], [r10, 0]]"
    and "\<exists>r00 r01 r10. self_rR s = [[r00, r01], [r10, 0]]"
    and "self_dzProps s = [5000, 5000, 5000]"
    and "self_PropSampling s = [5 / 10 ^ 3, 5 / 10 ^ 3, 5 / 10 ^ 3, 5 / 10 ^ 3]"
    and "self_SamplingRatioBetweenScreen s = [1, 1, 1]"
    and "planes s = [1]"
proof -
  note f = init_fields[OF assms] init_geometry[OF assms]
  show "self_N s = 2" by (simp add: f)
  show "self_Source s = Some [[1, 1], [1, 1]]"
    by (simp add: f default_config_def PlaneSource_def numeral_2_eq_2)
  show "\<exists>r00 r01 r10. self_r1 s = [[r00, r01], [r10, 0]]"
    using radius_2 by (simp add: f)
  show "\<exists>r00 r01 r10. self_rR s = [[r00, r01], [r10, 0]]"
    using radius_2 by (simp add: f)
  show "self_dzProps s = [5000, 5000, 5000]"
    using small_lists(1) by (simp add: f default_config_def)
  show ps: "self_PropSampling s = [5 / 10 ^ 3, 5 / 10 ^ 3, 5 / 10 ^ 3, 5 / 10 ^ 3]"
    unfolding f(9) using small_lists(3) by (simp add: default_config_def)
  show "self_SamplingRatioBetweenScreen s = [1, 1, 1]"
    unfolding f(10) ps by (rule small_lists(4))
  show "planes s = [1]"
    by (simp add: planes_def f PropLocs_length upto.simps)
qed

lemma small_propagation:
  assumes "init (default_config\<lparr>cfg_N := 2, cfg_NumScr := 1\<rparr>) = Inr s"
  shows "\<exists>V. VacuumProp s = Inr V \<and> V ! 1 ! 1 = 1"
    and "\<exists>W. SplitStepProp s U [[[z, z], [z, z]]] = Inr W \<and> W ! 1 ! 1 = exp (\<i> * z) * exp (\<i> * z)"
proof -
  note o = small_object[OF assms]
  obtain r00 r01 r10 where r1: "self_r1 s = [[r00, r01], [r10, 0]]" using o(3) by blast
  obtain q00 q01 q10 where rR: "self_rR s = [[q00, q01], [q10, 0]]" using o(4) by blast
  have P0: "quad_P0 s = Inr [[1, 1], [1, 1]]"
    by (simp add: quad_P0_def py_index_def o r1 amap_def err_bind_Inr)
  obtain p00 p01 p10 where PF: "quad_PF s = Inr [[p00, p01], [p10, 1]]"
    by (simp add: quad_PF_def py_index_def o rR amap_def err_bind_Inr)
  obtain g00 g01 g10 where sg: "MakeSGB s = [[g00, g01], [g10, 1]]"
    by (simp add: MakeSGB_def o r1 amap_def Let_def)
  have d: "diffract s [[c, c], [c, c]] 1 = Inr [[c, c], [c, c]]" for c
    by (rule diffract_const2[where ps = "5 / 10 ^ 3" and dz = 5000 and sr = 1])
       (simp_all add: o py_index_def)
  have sf: "screen_factor [[[z, z], [z, z]]] 0 = Inr [[exp (\<i> * z), exp (\<i> * z)], [exp (\<i> * z), exp (\<i> * z)]]"
    by (simp add: screen_factor_def py_index_def amap_def err_bind_Inr)
  show "\<exists>V. VacuumProp s = Inr V \<and> V ! 1 ! 1 = 1"
    by (simp add: VacuumProp_def VacuumProp_step_def P0 PF sg o d err_bind_Inr
        amul_def azip_def same_shape_def)
  show "\<exists>W. SplitStepProp s U [[[z, z], [z, z]]] = Inr W \<and> W ! 1 ! 1 = exp (\<i> * z) * exp (\<i> * z)"
    by (simp add: SplitStepProp_def SplitStepProp_step_def P0 PF sg o d sf err_bind_Inr
        amul_def azip_def same_shape_def)
qed


lemma TurbSim_transmittance:
  assumes "k < length phz"
  shows "screen_factor (map (amap (\<lambda>p. exp (\<i> * of_real p))) phz) (int k)
           = Inr (amap (\<lambda>p. exp (\<i> * exp (\<i> * of_real p))) (phz ! k))"
  using assms by (simp add: screen_factor_def py_index_def err_bind_Inr amap_def)

lemma SplitStepProp_first_screen_twice:
  assumes "init (default_config\<lparr>cfg_N := 2, cfg_NumScr := 1\<rparr>) = Inr s"
  shows "\<exists>W. SplitStepProp s U [[[of_real (pi / 2), of_real (pi / 2)],
                                   [of_real (pi / 2), of_real (pi / 2)]]] = Inr W
             \<and> W ! 1 ! 1 = - 1"
proof -
  have half: "exp (\<i> * complex_of_real (pi / 2)) = \<i>"
    using cis_pi_half by (simp add: cis_conv_exp)
  show ?thesis
    using small_propagation(2)[OF assms, of U "of_real (pi / 2)"] unfolding half by simp
qed

text \<open>
  Claim C1 at a grid of 2 by 2 points, one screen, the plane source and the phase \<open>\<pi>/2\<close> at
  every point of the screen. In vacuum the field at the cell \<open>(1, 1)\<close> arrives as 1. \<^verbatim>\<open>TurbSim\<close>
  hands \<^verbatim>\<open>np.exp(1j*phz)\<close> to \<^verbatim>\<open>SplitStepProp\<close>, which takes \<^verbatim>\<open>np.exp(1j * ...)\<close> of it again
  and multiplies by the first screen before and after the first step: the field arrives as
  \<open>exp (\<i> \<i>) exp (\<i> \<i>) = exp (-2)\<close>, not as the vacuum field times the transmittance
  \<open>exp (\<i> \<pi>/2) = \<i>\<close>.
\<close>

theorem TurbSim_double_exponential:
  "\<exists>s V W. init (default_config\<lparr>cfg_N := 2, cfg_NumScr := 1\<rparr>) = Inr s
      \<and> VacuumProp s = Inr V \<and> V ! 1 ! 1 = 1
      \<and> TurbSim_propagate s [[[pi / 2, pi / 2], [pi / 2, pi / 2]]] = Inr W
      \<and> W ! 1 ! 1 = exp (- 2)
      \<and> W ! 1 ! 1 \<noteq> exp (\<i> * of_real (pi / 2)) * V ! 1 ! 1"
proof -
  obtain s where s: "init (default_config\<lparr>cfg_N := 2, cfg_NumScr := 1\<rparr>) = Inr s"
    using init_Inr [of "default_config\<lparr>cfg_N := 2, cfg_NumScr := 1\<rparr>"]
    by (auto simp: default_config_def)
  obtain V where V: "VacuumProp s = Inr V" "V ! 1 ! 1 = 1"
    using small_propagation(1)[OF s] by blast
  have half: "exp (\<i> * complex_of_real (pi / 2)) = \<i>"
    using cis_pi_half by (simp add: cis_conv_exp)
  have half': "exp (\<i> * complex_of_real pi / 2) = \<i>"
    using half by simp
  obtain W where W: "SplitStepProp s (self_Source s) [[[\<i>, \<i>], [\<i>, \<i>]]] = Inr W"
    and W11: "W ! 1 ! 1 = exp (\<i> * \<i>) * exp (\<i> * \<i>)"
    using small_propagation(2)[OF s] by blast
  have run: "TurbSim_propagate s [[[pi / 2, pi / 2], [pi / 2, pi / 2]]] = Inr W"
    using W by (simp add: TurbSim_propagate_def amap_def half')
  have val: "W ! 1 ! 1 = exp (- 2)"
    unfolding W11 by (simp add: exp_add[symmetric])
  have "Im (exp (- 2 :: complex)) = 0" by (simp add: Im_exp)
  then have ne: "W ! 1 ! 1 \<noteq> exp (\<i> * of_real (pi / 2)) * V ! 1 ! 1"
    unfolding val half V(2) by (auto simp: complex_eq_iff)
  show ?thesis
    using s V run val ne by blast
qed


subsection \<open>Sampling ratios\<close>

lemma PropLocs_foldl_length: "length (foldl (PropLocs_step dz) xs zs) = length xs"
  by (induction zs arbitrary: xs) (simp_all add: PropLocs_step_def)

lemma PropLocs_foldl_nth:
  assumes "m < length xs" and "m \<le> length dz"
  shows "foldl (PropLocs_step dz) xs [0..<m] ! i =
           (if i \<le> m then xs ! 0 + sum_list (take i dz) else xs ! i)"
  using assms
proof (induction m arbitrary: i)
  case 0
  then show ?case by simp
next
  case (Suc m)
  define F where "F = foldl (PropLocs_step dz) xs [0..<m]"
  have IH: "F ! j = (if j \<le> m then xs ! 0 + sum_list (take j dz) else xs ! j)" for j
    unfolding F_def using Suc.IH[of j] Suc.prems by simp
  have len: "length F = length xs"
    unfolding F_def by (rule PropLocs_foldl_length)
  have tk: "sum_list (take (Suc m) dz) = sum_list (take m dz) + dz ! m"
    using Suc.prems(2) by (simp add: take_Suc_conv_app_nth)
  have "foldl (PropLocs_step dz) xs [0..<Suc m] = PropLocs_step dz F m"
    by (simp add: F_def)
  also have "\<dots> = F[Suc m := F ! m + dz ! m]"
    by (rule PropLocs_step_def)
  finally have st: "foldl (PropLocs_step dz) xs [0..<Suc m] = F[Suc m := F ! m + dz ! m]" .
  show ?case
  proof (cases "i = Suc m")
    case True
    then show ?thesis
      unfolding st using Suc.prems(1) len IH[of m] tk by simp
  next
    case False
    then show ?thesis
      unfolding st using IH[of i] by (simp add: le_Suc_eq)
  qed
qed

lemma PropLocs_nth:
  assumes "0 \<le> n" and "i \<le> nat (n + 2)"
  shows "PropLocs_of n (dzProps_of n L) ! i = sum_list (take i (dzProps_of n L))"
  using assms PropLocs_foldl_nth[of "nat (n + 2)" "replicate (nat (n + 3)) 0" "dzProps_of n L" i]
  by (simp add: PropLocs_of_def dzProps_length)

lemma dzProps_pos:
  assumes "2 \<le> n" and "0 < L" and "x \<in> set (dzProps_of n L)"
  shows "0 < x"
proof -
  obtain i where i: "i < nat (n + 2)" "x = dzProps_of n L ! i"
    using assms(3) by (metis dzProps_length in_set_conv_nth)
  show ?thesis
    unfolding i(2) dzProps_nth[OF assms(1) i(1)] using assms by simp
qed

lemma sum_list_nonneg_real:
  assumes "\<And>x. x \<in> set xs \<Longrightarrow> 0 < (x::real)"
  shows "0 \<le> sum_list xs"
  using assms by (induction xs) (auto simp: less_imp_le add_nonneg_nonneg)

lemma PropLocs_bounds:
  assumes "2 \<le> n" and "0 < L" and "i \<le> nat (n + 2)"
  shows "0 \<le> PropLocs_of n (dzProps_of n L) ! i" and "PropLocs_of n (dzProps_of n L) ! i \<le> L"
proof -
  let ?dz = "dzProps_of n L"
  have v: "PropLocs_of n ?dz ! i = sum_list (take i ?dz)"
    using PropLocs_nth[of n i L] assms by simp
  have a: "0 \<le> sum_list (take i ?dz)"
    by (rule sum_list_nonneg_real) (use dzProps_pos[OF assms(1,2)] in \<open>auto dest: in_set_takeD\<close>)
  have b: "0 \<le> sum_list (drop i ?dz)"
    by (rule sum_list_nonneg_real) (use dzProps_pos[OF assms(1,2)] in \<open>auto dest: in_set_dropD\<close>)
  have "sum_list (take i ?dz) + sum_list (drop i ?dz) = sum_list ?dz"
    by (metis append_take_drop_id sum_list_append)
  then have c: "sum_list (take i ?dz) \<le> L"
    using b dzProps_sum[OF assms(1), of L] by simp
  show "0 \<le> PropLocs_of n ?dz ! i" using a v by simp
  show "PropLocs_of n ?dz ! i \<le> L" using c v by simp
qed

lemma PropSampling_pos:
  assumes "2 \<le> n" and "0 < L" and "0 < dx" and "0 < Rdx" and "i \<le> nat (n + 2)"
  shows "0 < PropSampling_of dx Rdx (FracPropDist_of (PropLocs_of n (dzProps_of n L)) L) ! i"
proof -
  define f where "f = PropLocs_of n (dzProps_of n L) ! i / L"
  have f: "0 \<le> f" "f \<le> 1"
    using PropLocs_bounds[OF assms(1,2,5)] assms(2) by (simp_all add: f_def)
  have "i < length (PropLocs_of n (dzProps_of n L))"
    using assms(1,5) by (simp add: PropLocs_length)
  then have "PropSampling_of dx Rdx (FracPropDist_of (PropLocs_of n (dzProps_of n L)) L) ! i
          = (Rdx - dx) * f + dx"
    by (simp add: PropSampling_of_def FracPropDist_of_def f_def)
  also have "\<dots> = (1 - f) * dx + f * Rdx" by (simp add: algebra_simps)
  also have "0 < \<dots>"
  proof (cases "f = 0")
    case True
    then show ?thesis using assms(3) by simp
  next
    case False
    then have "0 < f * Rdx" using f assms(4) by simp
    moreover have "0 \<le> (1 - f) * dx" using f assms(3) by simp
    ultimately show ?thesis by linarith
  qed
  finally show ?thesis .
qed

lemma SamplingRatio_nth:
  assumes "i + 1 < length ps"
  shows "length (SamplingRatio_of ps) = length ps - 1"
    and "SamplingRatio_of ps ! i = ps ! (i + 1) / ps ! i"
proof -
  have a: "slice ps 1 (int (length ps)) = drop 1 ps"
    using assms by (simp add: slice_def slice_index_def Let_def)
  have b: "slice ps 0 (int (length ps) - 1) = take (length ps - 1) ps"
    using assms by (simp add: slice_def slice_index_def Let_def nat_diff_distrib')
  show "length (SamplingRatio_of ps) = length ps - 1"
    by (simp add: SamplingRatio_of_def a b)
  show "SamplingRatio_of ps ! i = ps ! (i + 1) / ps ! i"
    using assms by (simp add: SamplingRatio_of_def a b)
qed

text \<open>
  The sampling ratios for two screens or more: with positive pitches and path length the
  array has \<open>NumScr + 2\<close> entries, all strictly positive. (For one screen see
  \<open>SamplingRatio_NumScr_1\<close>.)
\<close>

theorem SamplingRatio_positive:
  assumes "2 \<le> NumScr" and "0 < L" and "0 < dx" and "0 < Rdx"
  shows "length (SamplingRatio_of (PropSampling_of dx Rdx
            (FracPropDist_of (PropLocs_of NumScr (dzProps_of NumScr L)) L))) = nat (NumScr + 2)
       \<and> list_all (\<lambda>r. 0 < r) (SamplingRatio_of (PropSampling_of dx Rdx
            (FracPropDist_of (PropLocs_of NumScr (dzProps_of NumScr L)) L)))"
proof -
  define ps where "ps = PropSampling_of dx Rdx
            (FracPropDist_of (PropLocs_of NumScr (dzProps_of NumScr L)) L)"
  have len: "length ps = nat (NumScr + 3)"
    by (simp add: ps_def PropSampling_of_def FracPropDist_of_def PropLocs_length)
  have pos: "0 < ps ! i" if "i \<le> nat (NumScr + 2)" for i
    unfolding ps_def using PropSampling_pos[OF assms(1,2,3,4) that] .
  have l: "length (SamplingRatio_of ps) = nat (NumScr + 2)"
    using SamplingRatio_nth(1)[of 0 ps] len assms(1) by simp
  have "0 < SamplingRatio_of ps ! i" if "i < nat (NumScr + 2)" for i
  proof -
    have "i + 1 < length ps" using that len by simp
    then have "SamplingRatio_of ps ! i = ps ! (i + 1) / ps ! i"
      by (rule SamplingRatio_nth(2))
    then show ?thesis using pos[of i] pos[of "i + 1"] that by simp
  qed
  then have "list_all (\<lambda>r. 0 < r) (SamplingRatio_of ps)"
    unfolding list_all_length l by simp
  then show ?thesis using l unfolding ps_def by simp
qed

theorem SamplingRatio_positive_witness:
  "(2::int) \<le> 10 \<and> (0::real) < 10000 \<and> (0::real) < 0.005 \<and> (0::real) < 0.01
     \<and> length (SamplingRatio_of (PropSampling_of 0.005 0.01
            (FracPropDist_of (PropLocs_of 10 (dzProps_of 10 10000)) 10000))) = 12
     \<and> list_all (\<lambda>r. 0 < r) (SamplingRatio_of (PropSampling_of 0.005 0.01
            (FracPropDist_of (PropLocs_of 10 (dzProps_of 10 10000)) 10000)))"
  using SamplingRatio_positive [of 10 10000 "0.005" "0.01"] by simp


end
